theory Spec2Isabelle
  imports Main
begin

section \<open>Python values and exceptions\<close>

text \<open>
  The repository is Python. An exception is a value of \<open>py_error\<close>; a function that may
  raise returns \<open>py_error + 'a\<close>, with \<open>Inl\<close> for the raised exception. Only the class of
  an exception is kept, and for \<open>KeyError\<close>, \<open>AttributeError\<close> and \<open>NameError\<close> the key
  or name that was not found.
\<close>

datatype py_error =
    ValueError
  | KeyError string
  | TypeError
  | AttributeError string
  | NameError string
  | FileNotFoundError
  | RequestException
  | OSError

text \<open>Sequencing of computations that may raise: the first exception wins.\<close>

definition bindE :: "py_error + 'a \<Rightarrow> ('a \<Rightarrow> py_error + 'b) \<Rightarrow> py_error + 'b" where
  "bindE m f = (case m of Inl e \<Rightarrow> Inl e | Inr x \<Rightarrow> f x)"

text \<open>
  \<^verbatim>\<open>s.split(sep)\<close> for a one-character separator: every occurrence of the separator
  ends a component, so a string with \<open>n\<close> separators has \<open>n + 1\<close> components, some of
  them possibly empty, and the empty string has the single component \<open>''''\<close>.
\<close>

fun py_split :: "char \<Rightarrow> string \<Rightarrow> string list" where
  "py_split sep [] = [[]]"
| "py_split sep (c # cs) =
     (if c = sep then [] # py_split sep cs
      else (case py_split sep cs of
              [] \<Rightarrow> [[c]]
            | w # ws \<Rightarrow> (c # w) # ws))"

section \<open>src/utils/ocel2\_uc\_importer.py: the storage path\<close>

text \<open>
  A Python dict with string keys is an association list in insertion order; the
  dictionary literal of \<^verbatim>\<open>parse_uc_file_path\<close> has four distinct keys.
\<close>

type_synonym str_dict = "(string \<times> string) list"

text \<open>
  \<^verbatim>\<open>
  def parse_uc_file_path(file_path):
      try:
          catalog, schema, volume, file_name = file_path.split('/')[2:]
          return {'catalog': catalog, 'schema': schema,
                  'volume': volume, 'file_name': file_name}
      except ValueError:
          raise ValueError("Invalid file path format. ...")
  \<close>
  The slice \<^verbatim>\<open>[2:]\<close> is \<open>drop 2\<close>; unpacking into four names raises ValueError
  unless the list has exactly four elements.
\<close>

definition parse_uc_file_path :: "string \<Rightarrow> py_error + str_dict" where
  "parse_uc_file_path file_path =
     (case drop 2 (py_split CHR ''/'' file_path) of
        [catalog, schema, volume, file_name] \<Rightarrow>
          Inr [(''catalog'', catalog), (''schema'', schema),
               (''volume'', volume), (''file_name'', file_name)]
      | _ \<Rightarrow> Inl ValueError)"

text \<open>The instance attributes set by \<^verbatim>\<open>OCEL2UCImporter.__init__\<close>, all None at first.\<close>

record importer =
  imp_catalog :: "string option"
  imp_schema :: "string option"
  imp_volume :: "string option"
  imp_file_name :: "string option"
  imp_file_path :: "string option"

definition importer_init :: importer where
  "importer_init =
     \<lparr>imp_catalog = None, imp_schema = None, imp_volume = None,
      imp_file_name = None, imp_file_path = None\<rparr>"

text \<open>
  The names bound in the global namespace of the module \<^verbatim>\<open>ocel2_uc_importer\<close>: its
  imports and its one class statement (run as a script, it binds \<^verbatim>\<open>parser\<close> and
  \<^verbatim>\<open>args\<close> as well, in its last lines). The functions defined inside the class body
  (\<^verbatim>\<open>parse_uc_file_path\<close> among them) are attributes of the class, not globals.
\<close>

definition module_globals :: "string list" where
  "module_globals =
     [''argparse'', ''requests'', ''os'', ''json'', ''Path'', ''Dict'', ''List'', ''Any'',
      ''SparkSession'', ''StructType'', ''StructField'', ''StringType'', ''IntegerType'',
      ''FloatType'', ''TimestampType'', ''ArrayType'', ''col'', ''explode'', ''lit'',
      ''OCEL2UCImporter'']"

text \<open>
  A name read inside a method body that is neither a local nor a builtin is looked up in
  the module's globals when the line runs; NameError when it is not bound there.
\<close>

definition load_global :: "string \<Rightarrow> py_error + string" where
  "load_global name = (if name \<in> set module_globals then Inr name else Inl (NameError name))"

text \<open>\<^verbatim>\<open>d[k]\<close> on a dict with string values.\<close>

definition str_dict_getitem :: "str_dict \<Rightarrow> string \<Rightarrow> py_error + string" where
  "str_dict_getitem d k = (case map_of d k of None \<Rightarrow> Inl (KeyError k) | Some v \<Rightarrow> Inr v)"

text \<open>
  \<^verbatim>\<open>set_uc_file_path(self, file_path=None, catalog=None, schema=None, volume=None,
  file_name=None)\<close>. The result is the exception raised, if any, paired with the instance
  as the call leaves it. The call on line 93 is to the unqualified name
  \<^verbatim>\<open>parse_uc_file_path\<close>.
\<close>

definition set_uc_file_path ::
  "importer \<Rightarrow> string option \<Rightarrow> string option \<Rightarrow> string option \<Rightarrow> string option \<Rightarrow>
   string option \<Rightarrow> (py_error + unit) \<times> importer" where
  "set_uc_file_path self file_path catalog schema volume file_name =
     (let has_file_path = (file_path \<noteq> None);
          has_components = list_ex (\<lambda>x. x \<noteq> None) [catalog, schema, volume, file_name]
      in if has_file_path \<and> has_components then (Inl ValueError, self)
         else if \<not> has_file_path \<and> \<not> has_components then (Inl ValueError, self)
         else (case file_path of
            Some fp \<Rightarrow>
              (case load_global ''parse_uc_file_path'' of
                 Inl e \<Rightarrow> (Inl e, self)
               | Inr _ \<Rightarrow>
                  (case parse_uc_file_path fp of
                     Inl e \<Rightarrow> (Inl e, self)
                   | Inr file_path_elements \<Rightarrow>
                      (case str_dict_getitem file_path_elements ''catalog'' of
                         Inl e \<Rightarrow> (Inl e, self)
                       | Inr c \<Rightarrow>
                      (case str_dict_getitem file_path_elements ''schema'' of
                         Inl e \<Rightarrow> (Inl e, self\<lparr>imp_catalog := Some c\<rparr>)
                       | Inr s \<Rightarrow>
                      (case str_dict_getitem file_path_elements ''volume'' of
                         Inl e \<Rightarrow> (Inl e, self\<lparr>imp_catalog := Some c, imp_schema := Some s\<rparr>)
                       | Inr v \<Rightarrow>
                      (case str_dict_getitem file_path_elements ''file_name'' of
                         Inl e \<Rightarrow>
                           (Inl e, self\<lparr>imp_catalog := Some c, imp_schema := Some s,
                                         imp_volume := Some v\<rparr>)
                       | Inr f \<Rightarrow>
                           (Inr (), self\<lparr>imp_catalog := Some c, imp_schema := Some s,
                                         imp_volume := Some v, imp_file_name := Some f,
                                         imp_file_path := Some fp\<rparr>)))))))
          | None \<Rightarrow>
              (let missing = map fst (filter (\<lambda>(name, value). value = None)
                                 [(''catalog'', catalog), (''schema'', schema),
                                  (''volume'', volume), (''file_name'', file_name)])
               in if missing \<noteq> [] then (Inl ValueError, self)
                  else (Inr (), self\<lparr>imp_catalog := catalog, imp_schema := schema,
                          imp_volume := volume, imp_file_name := file_name,
                          imp_file_path := Some (''/Volumes/'' @ the catalog @ ''/'' @ the schema
                             @ ''/'' @ the volume @ ''/'' @ the file_name)\<rparr>))))"

section \<open>src/utils/write\_ocel\_to\_uc\_schema.py: the document\<close>

text \<open>
  What \<^verbatim>\<open>json.load\<close> returns: None, a bool, an int (unbounded), a float, a str, a list
  or a dict with string keys. A dict is an association list in insertion order, its keys
  distinct; a lookup takes the first binding. Floats are kept abstract.
\<close>

typedecl pyfloat

datatype json =
    JNull
  | JBool bool
  | JInt int
  | JFloat pyfloat
  | JStr string
  | JArr "json list"
  | JObj "(string \<times> json) list"

text \<open>\<^verbatim>\<open>v[k]\<close> for a string key: KeyError on a dict without the key, TypeError on
  anything that is not a dict (a list or a str wants integer indices, the rest is not
  subscriptable).\<close>

fun py_getitem :: "json \<Rightarrow> string \<Rightarrow> py_error + json" where
  "py_getitem (JObj kvs) k =
     (case map_of kvs k of None \<Rightarrow> Inl (KeyError k) | Some v \<Rightarrow> Inr v)"
| "py_getitem _ k = Inl TypeError"

text \<open>\<^verbatim>\<open>v.get(k, default)\<close>: only a dict has the method.\<close>

fun py_get :: "json \<Rightarrow> string \<Rightarrow> json \<Rightarrow> py_error + json" where
  "py_get (JObj kvs) k d = Inr (case map_of kvs k of None \<Rightarrow> d | Some v \<Rightarrow> v)"
| "py_get _ k d = Inl (AttributeError ''get'')"

text \<open>\<^verbatim>\<open>for x in v\<close>: the elements of a list, the keys of a dict, the characters of a
  str; TypeError on a value that is not iterable.\<close>

fun py_iter :: "json \<Rightarrow> py_error + json list" where
  "py_iter (JArr xs) = Inr xs"
| "py_iter (JObj kvs) = Inr (map (\<lambda>kv. JStr (fst kv)) kvs)"
| "py_iter (JStr s) = Inr (map (\<lambda>c. JStr [c]) s)"
| "py_iter _ = Inl TypeError"

text \<open>A loop that appends one result per element and stops at the first exception.\<close>

fun for_each :: "('a \<Rightarrow> py_error + 'b) \<Rightarrow> 'a list \<Rightarrow> py_error + 'b list" where
  "for_each f [] = Inr []"
| "for_each f (x # xs) = bindE (f x) (\<lambda>y. bindE (for_each f xs) (\<lambda>ys. Inr (y # ys)))"

text \<open>Decimal digits of an int, as \<^verbatim>\<open>str\<close> prints them.\<close>

definition digit_char :: "nat \<Rightarrow> char" where
  "digit_char d = ''0123456789'' ! d"

fun nat_str :: "nat \<Rightarrow> string" where
  "nat_str n = (if n < 10 then [digit_char n] else nat_str (n div 10) @ [digit_char (n mod 10)])"

declare nat_str.simps [simp del]

definition int_str :: "int \<Rightarrow> string" where
  "int_str i = (if i < 0 then CHR ''-'' # nat_str (nat (- i)) else nat_str (nat i))"

text \<open>
  \<^verbatim>\<open>str(v)\<close>. A str is returned as it is, a bool prints as True or False, an int in
  decimal, None as None. The text of a float and of a list or dict is what the
  interpreter's \<^verbatim>\<open>repr\<close> gives; it is not modelled and is the parameter \<open>repr\<close>.
\<close>

fun py_str :: "(json \<Rightarrow> string) \<Rightarrow> json \<Rightarrow> string" where
  "py_str repr (JStr s) = s"
| "py_str repr (JBool b) = (if b then ''True'' else ''False'')"
| "py_str repr (JInt i) = int_str i"
| "py_str repr JNull = ''None''"
| "py_str repr v = repr v"

section \<open>src/utils/write\_ocel\_to\_uc\_schema.py: the tables\<close>

text \<open>
  A row is the dict appended to \<^verbatim>\<open>rows\<close>; a DataFrame is its list of rows; the catalog
  maps a table name to the rows last saved under it. \<^verbatim>\<open>spark.createDataFrame(rows)\<close>
  without a schema infers the schema from the rows and raises ValueError on an empty
  list; with a schema, the empty list gives an empty DataFrame. Inference on a list
  that is not empty is taken to succeed and to keep the values as they are, which
  idealises Spark: it rejects a column that is None in every row and may coerce a
  column of mixed types. The statements below about a saved table therefore assume that
  the method returned. \<^verbatim>\<open>df.write.mode("overwrite").saveAsTable(name)\<close> replaces what
  the catalog holds under the name.
\<close>

type_synonym row = "(string \<times> json) list"
type_synonym dataframe = "row list"
type_synonym catalog_store = "string \<rightharpoonup> dataframe"

definition empty_catalog :: catalog_store where
  "empty_catalog = Map.empty"

definition createDataFrame :: "row list \<Rightarrow> py_error + dataframe" where
  "createDataFrame rows = (if rows = [] then Inl ValueError else Inr rows)"

definition createDataFrame_schema :: "row list \<Rightarrow> string list \<Rightarrow> py_error + dataframe" where
  "createDataFrame_schema rows schema = Inr rows"

definition saveAsTable :: "dataframe \<Rightarrow> string \<Rightarrow> catalog_store \<Rightarrow> catalog_store" where
  "saveAsTable df table_name st = st(table_name \<mapsto> df)"

text \<open>The instance: \<^verbatim>\<open>__init__\<close> stores the catalog and schema names and their
  dotted join.\<close>

record ocel_uc_schema =
  self_catalog :: string
  self_schema :: string
  full_schema :: string

definition OCELUCSchema :: "string \<Rightarrow> string \<Rightarrow> ocel_uc_schema" where
  "OCELUCSchema c s = \<lparr>self_catalog = c, self_schema = s, full_schema = c @ ''.'' @ s\<rparr>"

text \<open>A method's outcome: the exception raised, if any, and the catalog as the call
  leaves it.\<close>

type_synonym outcome = "(py_error + unit) \<times> catalog_store"

text \<open>The last two statements of every table method: given the DataFrame (or the
  exception its creation raised), save it under the table's name.\<close>

definition save_df :: "py_error + dataframe \<Rightarrow> string \<Rightarrow> catalog_store \<Rightarrow> outcome" where
  "save_df made table_name st =
     (case made of
        Inl e \<Rightarrow> (Inl e, st)
      | Inr df \<Rightarrow> (Inr (), saveAsTable df table_name st))"

text \<open>The loop headers \<^verbatim>\<open>for x in d[key]\<close> and \<^verbatim>\<open>for x in d.get(key, [])\<close>.\<close>

definition iter_item :: "json \<Rightarrow> string \<Rightarrow> py_error + json list" where
  "iter_item d key = bindE (py_getitem d key) py_iter"

definition iter_get :: "json \<Rightarrow> string \<Rightarrow> py_error + json list" where
  "iter_get d key = bindE (py_get d key (JArr [])) py_iter"

subsection \<open>object\_types and event\_types\<close>

definition object_type_attr_row :: "json \<Rightarrow> json \<Rightarrow> py_error + row" where
  "object_type_attr_row type_name attr =
     bindE (py_getitem attr ''name'') (\<lambda>n.
     bindE (py_getitem attr ''type'') (\<lambda>t.
       Inr [(''object_type_name'', type_name), (''attribute_name'', n),
            (''attribute_type'', t)]))"

definition object_type_rows :: "json \<Rightarrow> py_error + row list" where
  "object_type_rows obj_type =
     bindE (py_getitem obj_type ''name'') (\<lambda>type_name.
     bindE (iter_item obj_type ''attributes'') (\<lambda>attrs.
       for_each (object_type_attr_row type_name) attrs))"

definition object_types_rows :: "json \<Rightarrow> py_error + row list" where
  "object_types_rows ocel_data =
     bindE (iter_item ocel_data ''objectTypes'') (\<lambda>obj_types.
     bindE (for_each object_type_rows obj_types) (\<lambda>rss. Inr (concat rss)))"

definition create_and_load_object_types_table ::
  "ocel_uc_schema \<Rightarrow> json \<Rightarrow> catalog_store \<Rightarrow> outcome" where
  "create_and_load_object_types_table self ocel_data st =
     (case object_types_rows ocel_data of
        Inl e \<Rightarrow> (Inl e, st)
      | Inr rows \<Rightarrow>
          save_df (if rows \<noteq> [] then createDataFrame rows
                   else createDataFrame_schema []
                          [''object_type_name'', ''attribute_name'', ''attribute_type''])
            (full_schema self @ ''.object_types'') st)"

definition event_type_attr_row :: "json \<Rightarrow> json \<Rightarrow> py_error + row" where
  "event_type_attr_row type_name attr =
     bindE (py_getitem attr ''name'') (\<lambda>n.
     bindE (py_getitem attr ''type'') (\<lambda>t.
       Inr [(''event_type_name'', type_name), (''attribute_name'', n),
            (''attribute_type'', t)]))"

definition event_type_rows :: "json \<Rightarrow> py_error + row list" where
  "event_type_rows event_type =
     bindE (py_getitem event_type ''name'') (\<lambda>type_name.
     bindE (iter_item event_type ''attributes'') (\<lambda>attrs.
       for_each (event_type_attr_row type_name) attrs))"

definition event_types_rows :: "json \<Rightarrow> py_error + row list" where
  "event_types_rows ocel_data =
     bindE (iter_item ocel_data ''eventTypes'') (\<lambda>event_types.
     bindE (for_each event_type_rows event_types) (\<lambda>rss. Inr (concat rss)))"

definition create_and_load_event_types_table ::
  "ocel_uc_schema \<Rightarrow> json \<Rightarrow> catalog_store \<Rightarrow> outcome" where
  "create_and_load_event_types_table self ocel_data st =
     (case event_types_rows ocel_data of
        Inl e \<Rightarrow> (Inl e, st)
      | Inr rows \<Rightarrow>
          save_df (if rows \<noteq> [] then createDataFrame rows
                   else createDataFrame_schema []
                          [''event_type_name'', ''attribute_name'', ''attribute_type''])
            (full_schema self @ ''.event_types'') st)"

subsection \<open>objects, object\_attributes, object\_relationships\<close>

definition object_row :: "json \<Rightarrow> py_error + row" where
  "object_row obj =
     bindE (py_getitem obj ''id'') (\<lambda>i.
     bindE (py_getitem obj ''type'') (\<lambda>t.
       Inr [(''object_id'', i), (''object_type'', t)]))"

definition objects_rows :: "json \<Rightarrow> py_error + row list" where
  "objects_rows ocel_data =
     bindE (iter_item ocel_data ''objects'') (\<lambda>objs. for_each object_row objs)"

definition create_and_load_objects_table ::
  "ocel_uc_schema \<Rightarrow> json \<Rightarrow> catalog_store \<Rightarrow> outcome" where
  "create_and_load_objects_table self ocel_data st =
     (case objects_rows ocel_data of
        Inl e \<Rightarrow> (Inl e, st)
      | Inr rows \<Rightarrow> save_df (createDataFrame rows) (full_schema self @ ''.objects'') st)"

definition object_attribute_row :: "(json \<Rightarrow> string) \<Rightarrow> json \<Rightarrow> json \<Rightarrow> py_error + row" where
  "object_attribute_row repr obj_id attr =
     bindE (py_getitem attr ''name'') (\<lambda>n.
     bindE (py_getitem attr ''value'') (\<lambda>v.
     bindE (py_get attr ''time'' JNull) (\<lambda>t.
       Inr [(''object_id'', obj_id), (''attribute_name'', n),
            (''attribute_value'', JStr (py_str repr v)), (''attribute_time'', t)])))"

definition object_attribute_rows :: "(json \<Rightarrow> string) \<Rightarrow> json \<Rightarrow> py_error + row list" where
  "object_attribute_rows repr obj =
     bindE (py_getitem obj ''id'') (\<lambda>obj_id.
     bindE (iter_get obj ''attributes'') (\<lambda>attrs.
       for_each (object_attribute_row repr obj_id) attrs))"

definition object_attributes_rows :: "(json \<Rightarrow> string) \<Rightarrow> json \<Rightarrow> py_error + row list" where
  "object_attributes_rows repr ocel_data =
     bindE (iter_item ocel_data ''objects'') (\<lambda>objs.
     bindE (for_each (object_attribute_rows repr) objs) (\<lambda>rss. Inr (concat rss)))"

definition create_and_load_attributes_table ::
  "(json \<Rightarrow> string) \<Rightarrow> ocel_uc_schema \<Rightarrow> json \<Rightarrow> catalog_store \<Rightarrow> outcome" where
  "create_and_load_attributes_table repr self ocel_data st =
     (case object_attributes_rows repr ocel_data of
        Inl e \<Rightarrow> (Inl e, st)
      | Inr rows \<Rightarrow>
          save_df (if rows \<noteq> [] then createDataFrame rows
                   else createDataFrame_schema []
                          [''object_id'', ''attribute_name'', ''attribute_value'',
                           ''attribute_time''])
            (full_schema self @ ''.object_attributes'') st)"

definition object_relationship_row :: "json \<Rightarrow> json \<Rightarrow> py_error + row" where
  "object_relationship_row source_id rel =
     bindE (py_getitem rel ''objectId'') (\<lambda>target.
     bindE (py_get rel ''qualifier'' (JStr [])) (\<lambda>q.
       Inr [(''source_object_id'', source_id), (''target_object_id'', target),
            (''qualifier'', q)]))"

definition object_relationship_rows :: "json \<Rightarrow> py_error + row list" where
  "object_relationship_rows obj =
     bindE (py_getitem obj ''id'') (\<lambda>source_id.
     bindE (iter_get obj ''relationships'') (\<lambda>rels.
       for_each (object_relationship_row source_id) rels))"

definition object_relationships_rows :: "json \<Rightarrow> py_error + row list" where
  "object_relationships_rows ocel_data =
     bindE (iter_item ocel_data ''objects'') (\<lambda>objs.
     bindE (for_each object_relationship_rows objs) (\<lambda>rss. Inr (concat rss)))"

definition create_and_load_object_relationships_table ::
  "ocel_uc_schema \<Rightarrow> json \<Rightarrow> catalog_store \<Rightarrow> outcome" where
  "create_and_load_object_relationships_table self ocel_data st =
     (case object_relationships_rows ocel_data of
        Inl e \<Rightarrow> (Inl e, st)
      | Inr rows \<Rightarrow>
          save_df (if rows \<noteq> [] then createDataFrame rows
                   else createDataFrame_schema []
                          [''source_object_id'', ''target_object_id'', ''qualifier''])
            (full_schema self @ ''.object_relationships'') st)"

subsection \<open>events, event\_attributes, event\_object\_relationships\<close>

definition event_row :: "json \<Rightarrow> py_error + row" where
  "event_row event =
     bindE (py_getitem event ''id'') (\<lambda>i.
     bindE (py_getitem event ''type'') (\<lambda>t.
     bindE (py_getitem event ''time'') (\<lambda>tm.
       Inr [(''event_id'', i), (''event_type'', t), (''event_time'', tm)])))"

definition events_rows :: "json \<Rightarrow> py_error + row list" where
  "events_rows ocel_data =
     bindE (iter_item ocel_data ''events'') (\<lambda>events. for_each event_row events)"

definition create_and_load_events_table ::
  "ocel_uc_schema \<Rightarrow> json \<Rightarrow> catalog_store \<Rightarrow> outcome" where
  "create_and_load_events_table self ocel_data st =
     (case events_rows ocel_data of
        Inl e \<Rightarrow> (Inl e, st)
      | Inr rows \<Rightarrow> save_df (createDataFrame rows) (full_schema self @ ''.events'') st)"

definition event_attribute_row :: "(json \<Rightarrow> string) \<Rightarrow> json \<Rightarrow> json \<Rightarrow> py_error + row" where
  "event_attribute_row repr event_id attr =
     bindE (py_getitem attr ''name'') (\<lambda>n.
     bindE (py_getitem attr ''value'') (\<lambda>v.
       Inr [(''event_id'', event_id), (''attribute_name'', n),
            (''attribute_value'', JStr (py_str repr v))]))"

definition event_attribute_rows :: "(json \<Rightarrow> string) \<Rightarrow> json \<Rightarrow> py_error + row list" where
  "event_attribute_rows repr event =
     bindE (py_getitem event ''id'') (\<lambda>event_id.
     bindE (iter_get event ''attributes'') (\<lambda>attrs.
       for_each (event_attribute_row repr event_id) attrs))"

definition event_attributes_rows :: "(json \<Rightarrow> string) \<Rightarrow> json \<Rightarrow> py_error + row list" where
  "event_attributes_rows repr ocel_data =
     bindE (iter_item ocel_data ''events'') (\<lambda>events.
     bindE (for_each (event_attribute_rows repr) events) (\<lambda>rss. Inr (concat rss)))"

definition create_and_load_event_attributes_table ::
  "(json \<Rightarrow> string) \<Rightarrow> ocel_uc_schema \<Rightarrow> json \<Rightarrow> catalog_store \<Rightarrow> outcome" where
  "create_and_load_event_attributes_table repr self ocel_data st =
     (case event_attributes_rows repr ocel_data of
        Inl e \<Rightarrow> (Inl e, st)
      | Inr rows \<Rightarrow>
          save_df (if rows \<noteq> [] then createDataFrame rows
                   else createDataFrame_schema []
                          [''event_id'', ''attribute_name'', ''attribute_value''])
            (full_schema self @ ''.event_attributes'') st)"

definition event_object_relationship_row :: "json \<Rightarrow> json \<Rightarrow> py_error + row" where
  "event_object_relationship_row event_id rel =
     bindE (py_getitem rel ''objectId'') (\<lambda>obj.
     bindE (py_get rel ''qualifier'' (JStr [])) (\<lambda>q.
       Inr [(''event_id'', event_id), (''object_id'', obj), (''qualifier'', q)]))"

definition event_object_relationship_rows :: "json \<Rightarrow> py_error + row list" where
  "event_object_relationship_rows event =
     bindE (py_getitem event ''id'') (\<lambda>event_id.
     bindE (iter_get event ''relationships'') (\<lambda>rels.
       for_each (event_object_relationship_row event_id) rels))"

definition event_object_relationships_rows :: "json \<Rightarrow> py_error + row list" where
  "event_object_relationships_rows ocel_data =
     bindE (iter_item ocel_data ''events'') (\<lambda>events.
     bindE (for_each event_object_relationship_rows events) (\<lambda>rss. Inr (concat rss)))"

definition create_and_load_event_object_relationships_table ::
  "ocel_uc_schema \<Rightarrow> json \<Rightarrow> catalog_store \<Rightarrow> outcome" where
  "create_and_load_event_object_relationships_table self ocel_data st =
     (case event_object_relationships_rows ocel_data of
        Inl e \<Rightarrow> (Inl e, st)
      | Inr rows \<Rightarrow>
          save_df (createDataFrame rows) (full_schema self @ ''.event_object_relationships'') st)"

subsection \<open>The full conversion\<close>

text \<open>
  The methods the class statement defines, under the names it gives them (the model
  drops a leading underscore from its own constant names, since an Isabelle name cannot
  start with one). A call \<^verbatim>\<open>self.name(ocel_data)\<close> looks the name up on the instance
  and raises AttributeError when the class has no such attribute.
\<close>

definition class_methods ::
  "(json \<Rightarrow> string) \<Rightarrow> (string \<times> (ocel_uc_schema \<Rightarrow> json \<Rightarrow> catalog_store \<Rightarrow> outcome)) list" where
  "class_methods repr =
     [(''_create_and_load_object_types_table'', create_and_load_object_types_table),
      (''_create_and_load_event_types_table'', create_and_load_event_types_table),
      (''create_and_load_objects_table'', create_and_load_objects_table),
      (''_create_and_load_attributes_table'', create_and_load_attributes_table repr),
      (''_create_and_load_object_relationships_table'',
         create_and_load_object_relationships_table),
      (''_create_and_load_events_table'', create_and_load_events_table),
      (''_create_and_load_event_attributes_table'',
         create_and_load_event_attributes_table repr),
      (''_create_and_load_event_object_relationships_table'',
         create_and_load_event_object_relationships_table)]"

definition call_method ::
  "(json \<Rightarrow> string) \<Rightarrow> ocel_uc_schema \<Rightarrow> string \<Rightarrow> json \<Rightarrow> catalog_store \<Rightarrow> outcome" where
  "call_method repr self name ocel_data st =
     (case map_of (class_methods repr) name of
        None \<Rightarrow> (Inl (AttributeError name), st)
      | Some m \<Rightarrow> m self ocel_data st)"

text \<open>Statements in sequence: an exception ends the run and leaves the catalog as it
  is at that moment.\<close>

fun call_in_order ::
  "(json \<Rightarrow> string) \<Rightarrow> ocel_uc_schema \<Rightarrow> string list \<Rightarrow> json \<Rightarrow> catalog_store \<Rightarrow> outcome" where
  "call_in_order repr self [] ocel_data st = (Inr (), st)"
| "call_in_order repr self (name # names) ocel_data st =
     (case call_method repr self name ocel_data st of
        (Inl e, st') \<Rightarrow> (Inl e, st')
      | (Inr _, st') \<Rightarrow> call_in_order repr self names ocel_data st')"

text \<open>The eight calls of \<^verbatim>\<open>write_ocel_json_to_schema\<close>, lines 253 to 260, as written.\<close>

definition create_all_tables :: "string list" where
  "create_all_tables =
     [''_create_and_load_object_types_table'',
      ''_create_and_load_event_types_table'',
      ''_create_and_load_objects_table'',
      ''_create_and_load_object_attributes_table'',
      ''_create_and_load_object_relationships_table'',
      ''_create_and_load_events_table'',
      ''_create_and_load_event_attributes_table'',
      ''_create_and_load_event_object_relationships_table'']"

text \<open>\<^verbatim>\<open>_load_ocel_json\<close>: the files of the volume are given by their parsed content.\<close>

definition load_ocel_json :: "(string \<rightharpoonup> json) \<Rightarrow> string \<Rightarrow> py_error + json" where
  "load_ocel_json files json_path =
     (case files json_path of None \<Rightarrow> Inl FileNotFoundError | Some d \<Rightarrow> Inr d)"

definition write_ocel_json_to_schema ::
  "(json \<Rightarrow> string) \<Rightarrow> (string \<rightharpoonup> json) \<Rightarrow> ocel_uc_schema \<Rightarrow> string \<Rightarrow> catalog_store \<Rightarrow> outcome" where
  "write_ocel_json_to_schema repr files self json_path st =
     (case load_ocel_json files json_path of
        Inl e \<Rightarrow> (Inl e, st)
      | Inr ocel_data \<Rightarrow> call_in_order repr self create_all_tables ocel_data st)"

section \<open>Example documents\<close>

text \<open>The minimal document of the specification.\<close>

definition minimal_document :: json where
  "minimal_document =
     JObj [(''objectTypes'', JArr []), (''eventTypes'', JArr []),
           (''objects'', JArr [JObj [(''id'', JStr ''o1''), (''type'', JStr ''order'')]]),
           (''events'', JArr [JObj [(''id'', JStr ''e1''), (''type'', JStr ''place''),
                                    (''time'', JStr ''2024-01-01T00:00:00Z'')]])]"

text \<open>A document with one object type, one event type, two objects and one event;
  the relationships carry no qualifier, and the second object has neither attributes
  nor relationships.\<close>

definition example_document :: json where
  "example_document =
     JObj [(''objectTypes'', JArr
              [JObj [(''name'', JStr ''order''),
                     (''attributes'', JArr
                        [JObj [(''name'', JStr ''price''), (''type'', JStr ''float'')]])]]),
           (''eventTypes'', JArr
              [JObj [(''name'', JStr ''place''), (''attributes'', JArr [])]]),
           (''objects'', JArr
              [JObj [(''id'', JStr ''o1''), (''type'', JStr ''order''),
                     (''attributes'', JArr
                        [JObj [(''name'', JStr ''price''), (''value'', JInt 42),
                               (''time'', JStr ''2024-01-01T00:00:00Z'')],
                         JObj [(''name'', JStr ''paid''), (''value'', JBool True)]]),
                     (''relationships'', JArr [JObj [(''objectId'', JStr ''o2'')]])],
               JObj [(''id'', JStr ''o2''), (''type'', JStr ''item'')]]),
           (''events'', JArr
              [JObj [(''id'', JStr ''e1''), (''type'', JStr ''place''),
                     (''time'', JStr ''2024-01-01T00:00:00Z''),
                     (''attributes'', JArr
                        [JObj [(''name'', JStr ''channel''), (''value'', JStr ''web'')]]),
                     (''relationships'', JArr [JObj [(''objectId'', JStr ''o1'')]])]])]"

text \<open>Documents whose type entries have a name and no \<^verbatim>\<open>attributes\<close> key.\<close>

definition bare_type_document :: json where
  "bare_type_document =
     JObj [(''objectTypes'', JArr [JObj [(''name'', JStr ''order'')]]),
           (''eventTypes'', JArr [JObj [(''name'', JStr ''place'')]]),
           (''objects'', JArr []), (''events'', JArr [])]"

definition bare_event_type_document :: json where
  "bare_event_type_document =
     JObj [(''objectTypes'', JArr
              [JObj [(''name'', JStr ''order''),
                     (''attributes'', JArr
                        [JObj [(''name'', JStr ''price''), (''type'', JStr ''float'')]])]]),
           (''eventTypes'', JArr [JObj [(''name'', JStr ''place'')]]),
           (''objects'', JArr []), (''events'', JArr [])]"

section \<open>The download functions of the three files\<close>

text \<open>
  What a Python function hands back: None when it ends without a \<^verbatim>\<open>return\<close>, a str, an
  int, or a tuple of values.
\<close>

datatype py_value = PyNone | PyStr string | PyInt int | PyTuple "py_value list"

text \<open>
  The response of \<^verbatim>\<open>requests.get(url, stream=True)\<close>, as far as the code reads it: the
  exception \<^verbatim>\<open>raise_for_status()\<close> raises, if any; the value of
  \<^verbatim>\<open>int(response.headers.get('content-length', 0))\<close> (0 without the header, ValueError
  when the header is not a number); the chunks \<^verbatim>\<open>iter_content\<close> yields; and the
  exception that ends the stream early, if any, after those chunks.
\<close>

record http_response =
  resp_raise_for_status :: "py_error option"
  resp_total_size :: "py_error + int"
  resp_chunks :: "string list"
  resp_stream_error :: "py_error option"

text \<open>
  The world outside: what a GET of a URL gives, and the exception, if any, that creating
  a directory or opening a file for writing raises. The files are a map from path to
  content.
\<close>

record environment =
  env_get :: "string \<Rightarrow> py_error + http_response"
  env_mkdir :: "string \<Rightarrow> py_error option"
  env_open_wb :: "string \<Rightarrow> py_error option"

type_synonym file_store = "string \<rightharpoonup> string"

text \<open>\<^verbatim>\<open>os.path.join(a, b)\<close> on POSIX, for two arguments.\<close>

definition os_path_join :: "string \<Rightarrow> string \<Rightarrow> string" where
  "os_path_join a b =
     (if b \<noteq> [] \<and> hd b = CHR ''/'' then b
      else if a = [] \<or> last a = CHR ''/'' then a @ b
      else a @ ''/'' @ b)"

text \<open>
  The body of the \<^verbatim>\<open>try\<close> block, the same in the three files: get, check the status,
  read the size, open the destination (which empties it), write every chunk that is not
  empty and count its bytes in \<^verbatim>\<open>downloaded\<close>. The result is the exception raised,
  if any, and the files as they are then; on success the value is the count in
  \<^verbatim>\<open>downloaded\<close>, which the callers print and do not return.
\<close>

definition stream_to_file ::
  "environment \<Rightarrow> string \<Rightarrow> string \<Rightarrow> file_store \<Rightarrow> (py_error + nat) \<times> file_store" where
  "stream_to_file env url destination fs =
     (case env_get env url of
        Inl e \<Rightarrow> (Inl e, fs)
      | Inr response \<Rightarrow>
     (case resp_raise_for_status response of
        Some e \<Rightarrow> (Inl e, fs)
      | None \<Rightarrow>
     (case resp_total_size response of
        Inl e \<Rightarrow> (Inl e, fs)
      | Inr total_size \<Rightarrow>
     (case env_open_wb env destination of
        Some e \<Rightarrow> (Inl e, fs)
      | None \<Rightarrow>
         (let written = filter (\<lambda>chunk. chunk \<noteq> []) (resp_chunks response);
              downloaded = sum_list (map length written);
              fs' = fs(destination \<mapsto> concat written)
          in case resp_stream_error response of
               Some e \<Rightarrow> (Inl e, fs')
             | None \<Rightarrow> (Inr downloaded, fs'))))))"

text \<open>src/ingest/download\_ocel\_to\_uc\_volume.py: \<^verbatim>\<open>download_file(url, folder_path,
  file_name)\<close>, which ends in \<^verbatim>\<open>return destination\<close>.\<close>

definition download_file ::
  "environment \<Rightarrow> string \<Rightarrow> string \<Rightarrow> string \<Rightarrow> file_store \<Rightarrow>
   (py_error + py_value) \<times> file_store" where
  "download_file env url folder_path file_name fs =
     (let destination = os_path_join folder_path file_name
      in case env_mkdir env folder_path of
           Some e \<Rightarrow> (Inl e, fs)
         | None \<Rightarrow>
            (case stream_to_file env url destination fs of
               (Inl e, fs') \<Rightarrow> (Inl e, fs')
             | (Inr downloaded, fs') \<Rightarrow> (Inr (PyStr destination), fs')))"

text \<open>src/utils/download\_ocel\_to\_uc\_volume.py: the instance of
  \<^verbatim>\<open>OCEL2JSONUCImporter\<close> and its \<^verbatim>\<open>download_file(self, file_name)\<close>, which ends in
  \<^verbatim>\<open>return file_path\<close>.\<close>

record json_importer =
  ji_url :: "string option"
  ji_catalog :: "string option"
  ji_schema :: "string option"
  ji_volume :: "string option"
  ji_file_path :: "string option"

definition OCEL2JSONUCImporter_download_file ::
  "environment \<Rightarrow> json_importer \<Rightarrow> string \<Rightarrow> file_store \<Rightarrow>
   (py_error + py_value) \<times> file_store" where
  "OCEL2JSONUCImporter_download_file env self file_name fs =
     (if ji_url self = None then (Inl ValueError, fs)
      else if ji_catalog self = None then (Inl ValueError, fs)
      else if ji_schema self = None then (Inl ValueError, fs)
      else if ji_volume self = None then (Inl ValueError, fs)
      else
        (let volume_path = ''/Volumes/'' @ the (ji_catalog self) @ ''/'' @ the (ji_schema self)
                             @ ''/'' @ the (ji_volume self)
         in case env_mkdir env volume_path of
              Some e \<Rightarrow> (Inl e, fs)
            | None \<Rightarrow>
               (let file_path = os_path_join volume_path file_name
                in case stream_to_file env (the (ji_url self)) file_path fs of
                     (Inl e, fs') \<Rightarrow> (Inl e, fs')
                   | (Inr downloaded, fs') \<Rightarrow> (Inr (PyStr file_path), fs'))))"

text \<open>src/utils/ocel2\_uc\_importer.py: \<^verbatim>\<open>OCEL2UCImporter.download_file(self, url,
  file_path=None)\<close>, which has no \<^verbatim>\<open>return\<close> statement.\<close>

definition OCEL2UCImporter_download_file ::
  "environment \<Rightarrow> importer \<Rightarrow> string option \<Rightarrow> string option \<Rightarrow> file_store \<Rightarrow>
   (py_error + py_value) \<times> file_store" where
  "OCEL2UCImporter_download_file env self url file_path fs =
     (case url of
        None \<Rightarrow> (Inl ValueError, fs)
      | Some u \<Rightarrow>
         (case (case file_path of Some p \<Rightarrow> Some p | None \<Rightarrow> imp_file_path self) of
            None \<Rightarrow> (Inl ValueError, fs)
          | Some p \<Rightarrow>
             (case stream_to_file env u p fs of
                (Inl e, fs') \<Rightarrow> (Inl e, fs')
              | (Inr downloaded, fs') \<Rightarrow> (Inr PyNone, fs'))))"

text \<open>A server that answers every GET with two chunks of five and four bytes, and a
  file system that lets every directory be made and every file be opened.\<close>

definition example_environment :: environment where
  "example_environment =
     \<lparr>env_get = (\<lambda>url. Inr \<lparr>resp_raise_for_status = None, resp_total_size = Inr 9,
                              resp_chunks = [''[1, 2'', '', 3]''],
                              resp_stream_error = None\<rparr>),
      env_mkdir = (\<lambda>path. None),
      env_open_wb = (\<lambda>path. None)\<rparr>"

section \<open>Path parsing\<close>

lemma length_six_cases:
  assumes "length xs = 6"
  obtains a b c d e f where "xs = [a, b, c, d, e, f]"
proof -
  from assms obtain a b c d e f where "xs = [a, b, c, d, e, f]"
    by (auto simp: numeral_eq_Suc length_Suc_conv)
  then show thesis by (rule that)
qed

lemma parse_fails_unless_four:
  assumes "length (drop 2 (py_split CHR ''/'' p)) \<noteq> 4"
  shows "parse_uc_file_path p = Inl ValueError"
proof -
  define segs where "segs = drop 2 (py_split CHR ''/'' p)"
  with assms have "length segs \<noteq> 4" by simp
  then have "(case segs of
        [catalog, schema, volume, file_name] \<Rightarrow>
          Inr [(''catalog'', catalog), (''schema'', schema),
               (''volume'', volume), (''file_name'', file_name)]
      | _ \<Rightarrow> Inl ValueError) = Inl ValueError"
    by (auto split: list.splits)
  then show ?thesis
    unfolding parse_uc_file_path_def segs_def .
qed

text \<open>
  C5. The path \<^verbatim>\<open>/Volumes/main/logistics/raw/ocel.json\<close> parses to the dictionary with
  catalog main, schema logistics, volume raw and file name ocel.json; and every path
  whose number of segments after the root (the components of the split at \<^verbatim>\<open>/\<close> from
  index 2 on, as the code counts them) is not four raises ValueError.
\<close>

theorem parse_uc_file_path_example_and_arity:
  "parse_uc_file_path ''/Volumes/main/logistics/raw/ocel.json'' =
     Inr [(''catalog'', ''main''), (''schema'', ''logistics''),
          (''volume'', ''raw''), (''file_name'', ''ocel.json'')]
   \<and> (\<forall>p. length (drop 2 (py_split CHR ''/'' p)) \<noteq> 4 \<longrightarrow>
          parse_uc_file_path p = Inl ValueError)"
proof
  show "parse_uc_file_path ''/Volumes/main/logistics/raw/ocel.json'' =
     Inr [(''catalog'', ''main''), (''schema'', ''logistics''),
          (''volume'', ''raw''), (''file_name'', ''ocel.json'')]"
    by (simp add: parse_uc_file_path_def)
next
  show "\<forall>p. length (drop 2 (py_split CHR ''/'' p)) \<noteq> 4 \<longrightarrow>
          parse_uc_file_path p = Inl ValueError"
    using parse_fails_unless_four by blast
qed

theorem parse_uc_file_path_example_and_arity_witness:
  "length (drop 2 (py_split CHR ''/'' ''/Volumes/main/logistics/ocel.json'')) = 3
   \<and> parse_uc_file_path ''/Volumes/main/logistics/ocel.json'' = Inl ValueError
   \<and> length (drop 2 (py_split CHR ''/'' ''/Volumes/main/logistics/raw/sub/ocel.json'')) = 5
   \<and> parse_uc_file_path ''/Volumes/main/logistics/raw/sub/ocel.json'' = Inl ValueError"
proof -
  have three: "length (drop 2 (py_split CHR ''/'' ''/Volumes/main/logistics/ocel.json'')) = 3"
    by simp
  have five:
    "length (drop 2 (py_split CHR ''/'' ''/Volumes/main/logistics/raw/sub/ocel.json'')) = 5"
    by simp
  from parse_uc_file_path_example_and_arity
  have all: "\<forall>p. length (drop 2 (py_split CHR ''/'' p)) \<noteq> 4 \<longrightarrow>
          parse_uc_file_path p = Inl ValueError"
    by (rule conjunct2)
  from all three have "parse_uc_file_path ''/Volumes/main/logistics/ocel.json'' = Inl ValueError"
    by simp
  moreover from all five
  have "parse_uc_file_path ''/Volumes/main/logistics/raw/sub/ocel.json'' = Inl ValueError"
    by simp
  ultimately show ?thesis using three five by simp
qed

text \<open>
  C9. The root is not checked: whenever the split at \<^verbatim>\<open>/\<close> has exactly six components,
  parsing succeeds and returns the components at indices 2, 3, 4 and 5 as catalog,
  schema, volume and file name, whatever the components at indices 0 and 1 are.
\<close>

theorem parse_uc_file_path_ignores_root:
  assumes "length (py_split CHR ''/'' p) = 6"
  shows "parse_uc_file_path p =
     Inr [(''catalog'', py_split CHR ''/'' p ! 2), (''schema'', py_split CHR ''/'' p ! 3),
          (''volume'', py_split CHR ''/'' p ! 4), (''file_name'', py_split CHR ''/'' p ! 5)]"
proof -
  from assms obtain a b c d e f where "py_split CHR ''/'' p = [a, b, c, d, e, f]"
    by (rule length_six_cases)
  then show ?thesis
    by (simp add: parse_uc_file_path_def)
qed

theorem parse_uc_file_path_ignores_root_witness:
  "length (py_split CHR ''/'' ''tmp/Data/main/logistics/raw/ocel.json'') = 6
   \<and> parse_uc_file_path ''tmp/Data/main/logistics/raw/ocel.json'' =
       Inr [(''catalog'', ''main''), (''schema'', ''logistics''),
            (''volume'', ''raw''), (''file_name'', ''ocel.json'')]"
proof -
  have six: "length (py_split CHR ''/'' ''tmp/Data/main/logistics/raw/ocel.json'') = 6"
    by simp
  from parse_uc_file_path_ignores_root [OF six] six show ?thesis
    by simp
qed

section \<open>Setting the path on the importer\<close>

text \<open>
  C10. With a file path given and no component given, \<^verbatim>\<open>set_uc_file_path\<close> raises
  NameError for the name \<^verbatim>\<open>parse_uc_file_path\<close>, and the instance is left as it was.
\<close>

theorem set_uc_file_path_name_error:
  "set_uc_file_path self (Some fp) None None None None =
     (Inl (NameError ''parse_uc_file_path''), self)"
  by (simp add: set_uc_file_path_def load_global_def module_globals_def)

theorem set_uc_file_path_name_error_witness:
  "set_uc_file_path importer_init (Some ''/Volumes/main/logistics/raw/ocel.json'')
      None None None None =
     (Inl (NameError ''parse_uc_file_path''), importer_init)"
  by (rule set_uc_file_path_name_error)

section \<open>Loops and table methods: basic facts\<close>

lemma bindE_Inr [simp]: "bindE (Inr x) f = f x"
  by (simp add: bindE_def)

lemma bindE_Inl [simp]: "bindE (Inl e) f = Inl e"
  by (simp add: bindE_def)

lemma bindE_eq_Inr: "bindE m f = Inr y \<longleftrightarrow> (\<exists>x. m = Inr x \<and> f x = Inr y)"
  by (cases m) simp_all

lemma for_each_length: "for_each f xs = Inr ys \<Longrightarrow> length ys = length xs"
  by (induction xs arbitrary: ys) (auto simp: bindE_eq_Inr)

lemma for_each_all2: "for_each f xs = Inr ys \<Longrightarrow> list_all2 (\<lambda>x y. f x = Inr y) xs ys"
  by (induction xs arbitrary: ys) (auto simp: bindE_eq_Inr)

lemma for_each_source: "for_each f xs = Inr ys \<Longrightarrow> y \<in> set ys \<Longrightarrow> \<exists>x\<in>set xs. f x = Inr y"
  by (induction xs arbitrary: ys) (auto simp: bindE_eq_Inr)

lemma for_each_image: "for_each f xs = Inr ys \<Longrightarrow> x \<in> set xs \<Longrightarrow> \<exists>y\<in>set ys. f x = Inr y"
  by (induction xs arbitrary: ys) (auto simp: bindE_eq_Inr)

lemma for_each_fails: "x \<in> set xs \<Longrightarrow> f x = Inl e \<Longrightarrow> \<exists>e'. for_each f xs = Inl e'"
proof (induction xs)
  case Nil
  then show ?case by simp
next
  case (Cons a xs)
  show ?case
  proof (cases "f a")
    case (Inl e1)
    then show ?thesis by simp
  next
    case (Inr y)
    show ?thesis
    proof (cases "x = a")
      case True
      with Cons.prems Inr show ?thesis by simp
    next
      case False
      with Cons obtain e' where "for_each f xs = Inl e'" by auto
      with Inr show ?thesis by simp
    qed
  qed
qed

lemma save_df_Inr:
  "save_df made n st = (Inr u, st') \<Longrightarrow> \<exists>df. made = Inr df \<and> st' = st(n \<mapsto> df)"
  by (auto simp: save_df_def saveAsTable_def split: sum.splits)

lemma save_df_Inl: "save_df made n st = (Inl e, st') \<Longrightarrow> made = Inl e \<and> st' = st"
  by (auto simp: save_df_def split: sum.splits)

lemma guarded_df:
  "(if rows \<noteq> [] then createDataFrame rows else createDataFrame_schema [] cols) = Inr rows"
  by (simp add: createDataFrame_def createDataFrame_schema_def)

lemma attributes_table_saved:
  assumes "create_and_load_attributes_table repr self d st = (Inr u, st')"
  shows "\<exists>rows. object_attributes_rows repr d = Inr rows \<and>
           st' = st(full_schema self @ ''.object_attributes'' \<mapsto> rows)"
  using assms
  by (auto simp: create_and_load_attributes_table_def guarded_df save_df_def saveAsTable_def
           split: sum.splits)

lemma objects_table_saved:
  assumes "create_and_load_objects_table self d st = (Inr u, st')"
  shows "\<exists>rows. objects_rows d = Inr rows \<and> rows \<noteq> [] \<and>
           st' = st(full_schema self @ ''.objects'' \<mapsto> rows)"
  using assms
  by (auto simp: create_and_load_objects_table_def createDataFrame_def save_df_def saveAsTable_def
           split: sum.splits if_splits)

lemma object_attribute_rows_shape:
  assumes "object_attribute_rows repr obj = Inr rs"
  shows "\<exists>i attrs. py_getitem obj ''id'' = Inr i \<and> iter_get obj ''attributes'' = Inr attrs \<and>
           length rs = length attrs \<and> (\<forall>r\<in>set rs. map_of r ''object_id'' = Some i)"
proof -
  from assms obtain i attrs where i: "py_getitem obj ''id'' = Inr i"
    and a: "iter_get obj ''attributes'' = Inr attrs"
    and fe: "for_each (object_attribute_row repr i) attrs = Inr rs"
    by (auto simp: object_attribute_rows_def bindE_eq_Inr)
  have "map_of r ''object_id'' = Some i" if "r \<in> set rs" for r
  proof -
    from for_each_source [OF fe that] obtain attr where "object_attribute_row repr i attr = Inr r"
      by blast
    then show ?thesis
      by (auto simp: object_attribute_row_def bindE_eq_Inr)
  qed
  with i a for_each_length [OF fe] show ?thesis by blast
qed

lemmas rows_defs =
  object_types_rows_def object_type_rows_def object_type_attr_row_def
  event_types_rows_def event_type_rows_def event_type_attr_row_def
  objects_rows_def object_row_def
  object_attributes_rows_def object_attribute_rows_def object_attribute_row_def
  object_relationships_rows_def object_relationship_rows_def object_relationship_row_def
  events_rows_def event_row_def
  event_attributes_rows_def event_attribute_rows_def event_attribute_row_def
  event_object_relationships_rows_def event_object_relationship_rows_def
  event_object_relationship_row_def
  iter_item_def iter_get_def

lemmas method_defs =
  create_and_load_object_types_table_def create_and_load_event_types_table_def
  create_and_load_objects_table_def create_and_load_attributes_table_def
  create_and_load_object_relationships_table_def create_and_load_events_table_def
  create_and_load_event_attributes_table_def
  create_and_load_event_object_relationships_table_def
  save_df_def createDataFrame_def createDataFrame_schema_def saveAsTable_def

lemma object_relationships_table_saved:
  assumes "create_and_load_object_relationships_table self d st = (Inr u, st')"
  shows "\<exists>rows. object_relationships_rows d = Inr rows \<and>
           st' = st(full_schema self @ ''.object_relationships'' \<mapsto> rows)"
  using assms
  by (auto simp: create_and_load_object_relationships_table_def guarded_df save_df_def
        saveAsTable_def split: sum.splits)

lemma event_object_relationships_table_saved:
  assumes "create_and_load_event_object_relationships_table self d st = (Inr u, st')"
  shows "\<exists>rows. event_object_relationships_rows d = Inr rows \<and> rows \<noteq> [] \<and>
           st' = st(full_schema self @ ''.event_object_relationships'' \<mapsto> rows)"
  using assms
  by (auto simp: create_and_load_event_object_relationships_table_def createDataFrame_def
        save_df_def saveAsTable_def split: sum.splits if_splits)

lemma save_df_fail: "save_df made n st = (Inl e, st') \<Longrightarrow> st' = st"
  by (auto simp: save_df_def split: sum.splits)

lemma method_fail_keeps_catalog:
  "create_and_load_object_types_table self d st = (Inl e, st') \<Longrightarrow> st' = st"
  "create_and_load_event_types_table self d st = (Inl e, st') \<Longrightarrow> st' = st"
  "create_and_load_objects_table self d st = (Inl e, st') \<Longrightarrow> st' = st"
  "create_and_load_attributes_table repr self d st = (Inl e, st') \<Longrightarrow> st' = st"
  "create_and_load_object_relationships_table self d st = (Inl e, st') \<Longrightarrow> st' = st"
  "create_and_load_events_table self d st = (Inl e, st') \<Longrightarrow> st' = st"
  "create_and_load_event_attributes_table repr self d st = (Inl e, st') \<Longrightarrow> st' = st"
  "create_and_load_event_object_relationships_table self d st = (Inl e, st') \<Longrightarrow> st' = st"
  by (auto simp: create_and_load_object_types_table_def create_and_load_event_types_table_def
      create_and_load_objects_table_def create_and_load_attributes_table_def
      create_and_load_object_relationships_table_def create_and_load_events_table_def
      create_and_load_event_attributes_table_def
      create_and_load_event_object_relationships_table_def
      split: sum.splits dest: save_df_fail)

lemma call_method_fail_keeps_catalog:
  assumes "call_method repr self name d st = (Inl e, st')"
  shows "st' = st"
proof (cases "map_of (class_methods repr) name")
  case None
  with assms show ?thesis by (simp add: call_method_def)
next
  case (Some m)
  then have "(name, m) \<in> set (class_methods repr)" by (rule map_of_SomeD)
  moreover from Some assms have "m self d st = (Inl e, st')" by (simp add: call_method_def)
  ultimately show ?thesis
    by (auto simp: class_methods_def dest: method_fail_keeps_catalog)
qed

lemma call_in_order_failure:
  "call_in_order repr self names d st = (Inl e, st') \<Longrightarrow>
   \<exists>finished failing rest. names = finished @ failing # rest \<and>
      call_in_order repr self finished d st = (Inr (), st') \<and>
      call_method repr self failing d st' = (Inl e, st')"
proof (induction names arbitrary: st)
  case Nil
  then show ?case by simp
next
  case (Cons name names)
  obtain r st1 where step: "call_method repr self name d st = (r, st1)"
    by (cases "call_method repr self name d st")
  show ?case
  proof (cases r)
    case (Inl e1)
    with step Cons.prems have "e1 = e" "st1 = st'" by simp_all
    moreover from step Inl have "st1 = st" by (auto dest: call_method_fail_keeps_catalog)
    ultimately have "name # names = [] @ name # names \<and>
        call_in_order repr self [] d st = (Inr (), st') \<and>
        call_method repr self name d st' = (Inl e, st')"
      using step Inl by simp
    then show ?thesis by blast
  next
    case (Inr u)
    with step Cons.prems have "call_in_order repr self names d st1 = (Inl e, st')" by simp
    from Cons.IH [OF this] obtain finished failing rest
      where "names = finished @ failing # rest"
        and "call_in_order repr self finished d st1 = (Inr (), st')"
        and "call_method repr self failing d st' = (Inl e, st')"
      by blast
    with step Inr have "name # names = (name # finished) @ failing # rest \<and>
        call_in_order repr self (name # finished) d st = (Inr (), st') \<and>
        call_method repr self failing d st' = (Inl e, st')"
      by simp
    then show ?thesis by blast
  qed
qed

section \<open>Object attributes\<close>

lemma attribute_lists_exist:
  "for_each (object_attribute_rows repr) objs = Inr rss \<Longrightarrow>
   \<exists>attrss. list_all2 (\<lambda>obj attrs. iter_get obj ''attributes'' = Inr attrs) objs attrss \<and>
            map length attrss = map length rss"
proof (induction objs arbitrary: rss)
  case Nil
  then show ?case by simp
next
  case (Cons obj objs)
  from Cons.prems obtain rs rss' where rs: "object_attribute_rows repr obj = Inr rs"
    and rest: "for_each (object_attribute_rows repr) objs = Inr rss'" and rss: "rss = rs # rss'"
    by (auto simp: bindE_eq_Inr)
  from object_attribute_rows_shape [OF rs] obtain attrs
    where a: "iter_get obj ''attributes'' = Inr attrs" "length rs = length attrs"
    by blast
  from Cons.IH [OF rest] obtain attrss
    where "list_all2 (\<lambda>obj attrs. iter_get obj ''attributes'' = Inr attrs) objs attrss"
      and "map length attrss = map length rss'"
    by blast
  with a rss have "list_all2 (\<lambda>obj attrs. iter_get obj ''attributes'' = Inr attrs)
       (obj # objs) (attrs # attrss) \<and> map length (attrs # attrss) = map length rss"
    by simp
  then show ?case by blast
qed

lemma object_row_id:
  "object_row obj = Inr r \<Longrightarrow> py_getitem obj ''id'' = Inr i \<Longrightarrow> map_of r ''object_id'' = Some i"
  by (auto simp: object_row_def bindE_eq_Inr)

text \<open>
  C4. When the object\_attributes method succeeds on a document, the table it writes
  has as many rows as the objects have attributes in total (the sum over the objects of
  the length of \<^verbatim>\<open>obj.get('attributes', [])\<close>), and every row carries the id of one of
  the objects; whenever the objects method succeeds on the same document, its table has
  one row per object and the object\_id of every attribute row is the object\_id of one
  of its rows.
\<close>

theorem object_attributes_count_and_parents:
  assumes "create_and_load_attributes_table repr self d st1 = (Inr (), st1')"
  shows "\<exists>objs attrss arows.
      iter_item d ''objects'' = Inr objs \<and>
      list_all2 (\<lambda>obj attrs. iter_get obj ''attributes'' = Inr attrs) objs attrss \<and>
      st1' (full_schema self @ ''.object_attributes'') = Some arows \<and>
      length arows = sum_list (map length attrss) \<and>
      (\<forall>r\<in>set arows. \<exists>obj\<in>set objs. \<exists>i.
          py_getitem obj ''id'' = Inr i \<and> map_of r ''object_id'' = Some i) \<and>
      (\<forall>st2 st2'. create_and_load_objects_table self d st2 = (Inr (), st2') \<longrightarrow>
         (\<exists>orows. st2' (full_schema self @ ''.objects'') = Some orows \<and>
            length orows = length objs \<and>
            (\<forall>r\<in>set arows. \<exists>r'\<in>set orows.
               map_of r ''object_id'' = map_of r' ''object_id'' \<and>
               map_of r ''object_id'' \<noteq> None)))"
proof -
  from attributes_table_saved [OF assms] obtain arows
    where ar: "object_attributes_rows repr d = Inr arows"
      and st1: "st1' (full_schema self @ ''.object_attributes'') = Some arows"
    by auto
  from ar obtain objs rss where objs: "iter_item d ''objects'' = Inr objs"
    and fe: "for_each (object_attribute_rows repr) objs = Inr rss" and cc: "arows = concat rss"
    by (auto simp: object_attributes_rows_def bindE_eq_Inr)
  from attribute_lists_exist [OF fe] obtain attrss
    where all2: "list_all2 (\<lambda>obj attrs. iter_get obj ''attributes'' = Inr attrs) objs attrss"
      and lens: "map length attrss = map length rss"
    by blast
  have count: "length arows = sum_list (map length attrss)"
    by (simp add: cc length_concat lens)
  have owner: "\<exists>obj\<in>set objs. \<exists>i.
      py_getitem obj ''id'' = Inr i \<and> map_of r ''object_id'' = Some i"
    if "r \<in> set arows" for r
  proof -
    from that cc obtain rs where rs: "rs \<in> set rss" "r \<in> set rs" by auto
    from for_each_source [OF fe rs(1)] obtain obj
      where obj: "obj \<in> set objs" "object_attribute_rows repr obj = Inr rs" by blast
    from object_attribute_rows_shape [OF obj(2)] rs(2) obtain i
      where "py_getitem obj ''id'' = Inr i" "map_of r ''object_id'' = Some i" by blast
    with obj(1) show ?thesis by blast
  qed
  have parents: "\<exists>orows. st2' (full_schema self @ ''.objects'') = Some orows \<and>
            length orows = length objs \<and>
            (\<forall>r\<in>set arows. \<exists>r'\<in>set orows.
               map_of r ''object_id'' = map_of r' ''object_id'' \<and>
               map_of r ''object_id'' \<noteq> None)"
    if ok: "create_and_load_objects_table self d st2 = (Inr (), st2')" for st2 st2'
  proof -
    from objects_table_saved [OF ok] obtain orows
      where orw: "objects_rows d = Inr orows"
        and st2: "st2' (full_schema self @ ''.objects'') = Some orows"
      by auto
    from orw objs have fo: "for_each object_row objs = Inr orows"
      by (simp add: objects_rows_def)
    have "\<exists>r'\<in>set orows.
        map_of r ''object_id'' = map_of r' ''object_id'' \<and> map_of r ''object_id'' \<noteq> None"
      if "r \<in> set arows" for r
    proof -
      from owner [OF that] obtain obj i where obj: "obj \<in> set objs"
        and i: "py_getitem obj ''id'' = Inr i" "map_of r ''object_id'' = Some i" by blast
      from for_each_image [OF fo obj] obtain r'
        where r': "r' \<in> set orows" "object_row obj = Inr r'" by blast
      from object_row_id [OF r'(2) i(1)] i(2)
      have "map_of r ''object_id'' = map_of r' ''object_id'' \<and> map_of r ''object_id'' \<noteq> None"
        by simp
      with r'(1) show ?thesis by blast
    qed
    with st2 for_each_length [OF fo] show ?thesis by blast
  qed
  from objs all2 st1 count owner parents show ?thesis
    by blast
qed

theorem object_attributes_count_and_parents_witness:
  "fst (create_and_load_attributes_table (\<lambda>v. []) (OCELUCSchema ''main'' ''logistics'')
          example_document empty_catalog) = Inr ()
   \<and> fst (create_and_load_objects_table (OCELUCSchema ''main'' ''logistics'')
          example_document empty_catalog) = Inr ()
   \<and> (\<exists>objs attrss arows orows.
      iter_item example_document ''objects'' = Inr objs \<and>
      list_all2 (\<lambda>obj attrs. iter_get obj ''attributes'' = Inr attrs) objs attrss \<and>
      snd (create_and_load_attributes_table (\<lambda>v. []) (OCELUCSchema ''main'' ''logistics'')
             example_document empty_catalog) ''main.logistics.object_attributes'' = Some arows \<and>
      snd (create_and_load_objects_table (OCELUCSchema ''main'' ''logistics'')
             example_document empty_catalog) ''main.logistics.objects'' = Some orows \<and>
      length orows = length objs \<and>
      length arows = sum_list (map length attrss) \<and>
      (\<forall>r\<in>set arows. \<exists>r'\<in>set orows.
          map_of r ''object_id'' = map_of r' ''object_id'' \<and> map_of r ''object_id'' \<noteq> None))
   \<and> length (the (snd (create_and_load_attributes_table (\<lambda>v. [])
         (OCELUCSchema ''main'' ''logistics'') example_document empty_catalog)
            ''main.logistics.object_attributes'')) = 2"
proof -
  let ?self = "OCELUCSchema ''main'' ''logistics''"
  let ?A = "create_and_load_attributes_table (\<lambda>v. []) ?self example_document empty_catalog"
  let ?B = "create_and_load_objects_table ?self example_document empty_catalog"
  have f1: "fst ?A = Inr ()"
    by (simp add: method_defs rows_defs example_document_def)
  have f2: "fst ?B = Inr ()"
    by (simp add: method_defs rows_defs example_document_def)
  have a: "?A = (Inr (), snd ?A)"
    using f1 by (simp add: prod_eq_iff)
  have b: "?B = (Inr (), snd ?B)"
    using f2 by (simp add: prod_eq_iff)
  have fs: "full_schema ?self = ''main.logistics''"
    by (simp add: OCELUCSchema_def)
  have two: "length (the (snd ?A ''main.logistics.object_attributes'')) = 2"
    by (simp add: method_defs rows_defs example_document_def OCELUCSchema_def)
  from object_attributes_count_and_parents [OF a] obtain objs attrss arows
    where h1: "iter_item example_document ''objects'' = Inr objs"
      and h2: "list_all2 (\<lambda>obj attrs. iter_get obj ''attributes'' = Inr attrs) objs attrss"
      and h3: "snd ?A (full_schema ?self @ ''.object_attributes'') = Some arows"
      and h4: "length arows = sum_list (map length attrss)"
      and h5: "\<forall>st2 st2'. create_and_load_objects_table ?self example_document st2 = (Inr (), st2')
         \<longrightarrow> (\<exists>orows. st2' (full_schema ?self @ ''.objects'') = Some orows \<and>
            length orows = length objs \<and>
            (\<forall>r\<in>set arows. \<exists>r'\<in>set orows.
               map_of r ''object_id'' = map_of r' ''object_id'' \<and>
               map_of r ''object_id'' \<noteq> None))"
    by blast
  from h5 b obtain orows
    where h6: "snd ?B (full_schema ?self @ ''.objects'') = Some orows"
      and h7: "length orows = length objs"
      and h8: "\<forall>r\<in>set arows. \<exists>r'\<in>set orows.
               map_of r ''object_id'' = map_of r' ''object_id'' \<and>
               map_of r ''object_id'' \<noteq> None"
    by blast
  from h3 have k3: "snd ?A ''main.logistics.object_attributes'' = Some arows"
    by (simp add: fs)
  from h6 have k6: "snd ?B ''main.logistics.objects'' = Some orows"
    by (simp add: fs)
  from h1 h2 k3 h4 k6 h7 h8 f1 f2 two show ?thesis by blast
qed

section \<open>Relationship qualifiers\<close>

lemma object_relationship_default:
  assumes ok: "create_and_load_object_relationships_table self d st = (Inr (), st')"
    and objs: "iter_item d ''objects'' = Inr objs" and obj: "obj \<in> set objs"
    and rels: "iter_get obj ''relationships'' = Inr rels" and rel: "JObj kvs \<in> set rels"
    and noq: "map_of kvs ''qualifier'' = None"
  shows "\<exists>rows sid tid. st' (full_schema self @ ''.object_relationships'') = Some rows \<and>
           py_getitem obj ''id'' = Inr sid \<and> map_of kvs ''objectId'' = Some tid \<and>
           [(''source_object_id'', sid), (''target_object_id'', tid), (''qualifier'', JStr '''')]
             \<in> set rows"
proof -
  from object_relationships_table_saved [OF ok] obtain rows
    where rows: "object_relationships_rows d = Inr rows"
      and st': "st' (full_schema self @ ''.object_relationships'') = Some rows"
    by auto
  from rows objs obtain rss where fe: "for_each object_relationship_rows objs = Inr rss"
    and cc: "rows = concat rss"
    by (auto simp: object_relationships_rows_def bindE_eq_Inr)
  from for_each_image [OF fe obj] obtain rs
    where rs: "rs \<in> set rss" "object_relationship_rows obj = Inr rs" by blast
  from rs(2) rels obtain sid where sid: "py_getitem obj ''id'' = Inr sid"
    and inner: "for_each (object_relationship_row sid) rels = Inr rs"
    by (auto simp: object_relationship_rows_def bindE_eq_Inr)
  from for_each_image [OF inner rel] obtain r
    where r: "r \<in> set rs" "object_relationship_row sid (JObj kvs) = Inr r" by blast
  from r(2) noq obtain tid where tid: "map_of kvs ''objectId'' = Some tid"
    and req: "r = [(''source_object_id'', sid), (''target_object_id'', tid),
                   (''qualifier'', JStr '''')]"
    by (auto simp: object_relationship_row_def bindE_eq_Inr split: option.splits)
  from r(1) rs(1) cc have "r \<in> set rows" by auto
  with st' sid tid req show ?thesis by blast
qed

lemma event_object_relationship_default:
  assumes ok: "create_and_load_event_object_relationships_table self d st = (Inr (), st')"
    and events: "iter_item d ''events'' = Inr events" and event: "event \<in> set events"
    and rels: "iter_get event ''relationships'' = Inr rels" and rel: "JObj kvs \<in> set rels"
    and noq: "map_of kvs ''qualifier'' = None"
  shows "\<exists>rows eid oid. st' (full_schema self @ ''.event_object_relationships'') = Some rows \<and>
           py_getitem event ''id'' = Inr eid \<and> map_of kvs ''objectId'' = Some oid \<and>
           [(''event_id'', eid), (''object_id'', oid), (''qualifier'', JStr '''')] \<in> set rows"
proof -
  from event_object_relationships_table_saved [OF ok] obtain rows
    where rows: "event_object_relationships_rows d = Inr rows"
      and st': "st' (full_schema self @ ''.event_object_relationships'') = Some rows"
    by auto
  from rows events obtain rss where fe: "for_each event_object_relationship_rows events = Inr rss"
    and cc: "rows = concat rss"
    by (auto simp: event_object_relationships_rows_def bindE_eq_Inr)
  from for_each_image [OF fe event] obtain rs
    where rs: "rs \<in> set rss" "event_object_relationship_rows event = Inr rs" by blast
  from rs(2) rels obtain eid where eid: "py_getitem event ''id'' = Inr eid"
    and inner: "for_each (event_object_relationship_row eid) rels = Inr rs"
    by (auto simp: event_object_relationship_rows_def bindE_eq_Inr)
  from for_each_image [OF inner rel] obtain r
    where r: "r \<in> set rs" "event_object_relationship_row eid (JObj kvs) = Inr r" by blast
  from r(2) noq obtain oid where oid: "map_of kvs ''objectId'' = Some oid"
    and req: "r = [(''event_id'', eid), (''object_id'', oid), (''qualifier'', JStr '''')]"
    by (auto simp: event_object_relationship_row_def bindE_eq_Inr split: option.splits)
  from r(1) rs(1) cc have "r \<in> set rows" by auto
  with st' eid oid req show ?thesis by blast
qed

text \<open>
  C3. In the object\_relationships table and in the event\_object\_relationships table,
  the row emitted for a relationship element that has no \<^verbatim>\<open>qualifier\<close> key carries the
  empty string as its qualifier: not None, and not a missing column.
\<close>

theorem missing_qualifier_is_empty_string:
  "(create_and_load_object_relationships_table self d st = (Inr (), st') \<longrightarrow>
    iter_item d ''objects'' = Inr objs \<longrightarrow> obj \<in> set objs \<longrightarrow>
    iter_get obj ''relationships'' = Inr rels \<longrightarrow> JObj kvs \<in> set rels \<longrightarrow>
    map_of kvs ''qualifier'' = None \<longrightarrow>
      (\<exists>rows sid tid. st' (full_schema self @ ''.object_relationships'') = Some rows \<and>
           py_getitem obj ''id'' = Inr sid \<and> map_of kvs ''objectId'' = Some tid \<and>
           [(''source_object_id'', sid), (''target_object_id'', tid), (''qualifier'', JStr '''')]
             \<in> set rows))
   \<and>
   (create_and_load_event_object_relationships_table self d st = (Inr (), st2') \<longrightarrow>
    iter_item d ''events'' = Inr events \<longrightarrow> event \<in> set events \<longrightarrow>
    iter_get event ''relationships'' = Inr erels \<longrightarrow> JObj ekvs \<in> set erels \<longrightarrow>
    map_of ekvs ''qualifier'' = None \<longrightarrow>
      (\<exists>rows eid oid. st2' (full_schema self @ ''.event_object_relationships'') = Some rows \<and>
           py_getitem event ''id'' = Inr eid \<and> map_of ekvs ''objectId'' = Some oid \<and>
           [(''event_id'', eid), (''object_id'', oid), (''qualifier'', JStr '''')] \<in> set rows))"
  using object_relationship_default event_object_relationship_default by blast

theorem missing_qualifier_is_empty_string_witness:
  "fst (create_and_load_object_relationships_table (OCELUCSchema ''main'' ''logistics'')
          example_document empty_catalog) = Inr ()
   \<and> fst (create_and_load_event_object_relationships_table (OCELUCSchema ''main'' ''logistics'')
          example_document empty_catalog) = Inr ()
   \<and> (\<exists>rows. snd (create_and_load_object_relationships_table (OCELUCSchema ''main'' ''logistics'')
          example_document empty_catalog) ''main.logistics.object_relationships'' = Some rows
        \<and> [(''source_object_id'', JStr ''o1''), (''target_object_id'', JStr ''o2''),
            (''qualifier'', JStr '''')] \<in> set rows)
   \<and> (\<exists>rows. snd (create_and_load_event_object_relationships_table
          (OCELUCSchema ''main'' ''logistics'') example_document empty_catalog)
            ''main.logistics.event_object_relationships'' = Some rows
        \<and> [(''event_id'', JStr ''e1''), (''object_id'', JStr ''o1''),
            (''qualifier'', JStr '''')] \<in> set rows)"
proof -
  let ?self = "OCELUCSchema ''main'' ''logistics''"
  let ?o1 = "JObj [(''id'', JStr ''o1''), (''type'', JStr ''order''),
                     (''attributes'', JArr
                        [JObj [(''name'', JStr ''price''), (''value'', JInt 42),
                               (''time'', JStr ''2024-01-01T00:00:00Z'')],
                         JObj [(''name'', JStr ''paid''), (''value'', JBool True)]]),
                     (''relationships'', JArr [JObj [(''objectId'', JStr ''o2'')]])]"
  let ?o2 = "JObj [(''id'', JStr ''o2''), (''type'', JStr ''item'')]"
  let ?e1 = "JObj [(''id'', JStr ''e1''), (''type'', JStr ''place''),
                     (''time'', JStr ''2024-01-01T00:00:00Z''),
                     (''attributes'', JArr
                        [JObj [(''name'', JStr ''channel''), (''value'', JStr ''web'')]]),
                     (''relationships'', JArr [JObj [(''objectId'', JStr ''o1'')]])]"
  have f1: "fst (create_and_load_object_relationships_table ?self example_document empty_catalog)
      = Inr ()"
    by (simp add: method_defs rows_defs example_document_def)
  have f2: "fst (create_and_load_event_object_relationships_table ?self example_document
      empty_catalog) = Inr ()"
    by (simp add: method_defs rows_defs example_document_def)
  have a: "create_and_load_object_relationships_table ?self example_document empty_catalog =
      (Inr (), snd (create_and_load_object_relationships_table ?self example_document
         empty_catalog))"
    using f1 by (simp add: prod_eq_iff)
  have b: "create_and_load_event_object_relationships_table ?self example_document empty_catalog =
      (Inr (), snd (create_and_load_event_object_relationships_table ?self example_document
         empty_catalog))"
    using f2 by (simp add: prod_eq_iff)
  have objs: "iter_item example_document ''objects'' = Inr [?o1, ?o2]"
    by (simp add: iter_item_def example_document_def)
  have events: "iter_item example_document ''events'' = Inr [?e1]"
    by (simp add: iter_item_def example_document_def)
  have orels: "iter_get ?o1 ''relationships'' = Inr [JObj [(''objectId'', JStr ''o2'')]]"
    by (simp add: iter_get_def)
  have erels: "iter_get ?e1 ''relationships'' = Inr [JObj [(''objectId'', JStr ''o1'')]]"
    by (simp add: iter_get_def)
  have fs: "full_schema ?self = ''main.logistics''"
    by (simp add: OCELUCSchema_def)
  note inst = missing_qualifier_is_empty_string
    [where self = ?self and d = example_document and st = empty_catalog
       and objs = "[?o1, ?o2]" and obj = ?o1
       and rels = "[JObj [(''objectId'', JStr ''o2'')]]" and kvs = "[(''objectId'', JStr ''o2'')]"
       and events = "[?e1]" and event = ?e1
       and erels = "[JObj [(''objectId'', JStr ''o1'')]]"
       and ekvs = "[(''objectId'', JStr ''o1'')]"]
  from inst [THEN conjunct1, rule_format, OF a objs _ orels]
  have c: "\<exists>rows. snd (create_and_load_object_relationships_table ?self
          example_document empty_catalog) ''main.logistics.object_relationships'' = Some rows
        \<and> [(''source_object_id'', JStr ''o1''), (''target_object_id'', JStr ''o2''),
            (''qualifier'', JStr '''')] \<in> set rows"
    by (simp add: fs)
  from inst [THEN conjunct2, rule_format, OF b events _ erels]
  have d: "\<exists>rows. snd (create_and_load_event_object_relationships_table ?self
          example_document empty_catalog) ''main.logistics.event_object_relationships'' = Some rows
        \<and> [(''event_id'', JStr ''e1''), (''object_id'', JStr ''o1''),
            (''qualifier'', JStr '''')] \<in> set rows"
    by (simp add: fs)
  from f1 f2 c d show ?thesis by blast
qed

section \<open>Attribute values as text\<close>

lemma event_attributes_table_saved:
  assumes "create_and_load_event_attributes_table repr self d st = (Inr u, st')"
  shows "\<exists>rows. event_attributes_rows repr d = Inr rows \<and>
           st' = st(full_schema self @ ''.event_attributes'' \<mapsto> rows)"
  using assms
  by (auto simp: create_and_load_event_attributes_table_def guarded_df save_df_def
        saveAsTable_def split: sum.splits)

lemma object_attribute_row_text:
  assumes "object_attribute_row repr oid attr = Inr r"
  shows "\<exists>n v t. py_getitem attr ''name'' = Inr n \<and> py_getitem attr ''value'' = Inr v \<and>
           py_get attr ''time'' JNull = Inr t \<and>
           r = [(''object_id'', oid), (''attribute_name'', n),
                (''attribute_value'', JStr (py_str repr v)), (''attribute_time'', t)]"
  using assms by (auto simp: object_attribute_row_def bindE_eq_Inr)

lemma event_attribute_row_text:
  assumes "event_attribute_row repr eid attr = Inr r"
  shows "\<exists>n v. py_getitem attr ''name'' = Inr n \<and> py_getitem attr ''value'' = Inr v \<and>
           r = [(''event_id'', eid), (''attribute_name'', n),
                (''attribute_value'', JStr (py_str repr v))]"
  using assms by (auto simp: event_attribute_row_def bindE_eq_Inr)

lemma object_attribute_value_saved:
  assumes ok: "create_and_load_attributes_table repr self d st = (Inr (), st')"
    and objs: "iter_item d ''objects'' = Inr objs" and obj: "obj \<in> set objs"
    and attrs: "iter_get obj ''attributes'' = Inr attrs" and attr: "attr \<in> set attrs"
    and val: "py_getitem attr ''value'' = Inr v"
  shows "\<exists>rows oid n t. st' (full_schema self @ ''.object_attributes'') = Some rows \<and>
           py_getitem obj ''id'' = Inr oid \<and> py_getitem attr ''name'' = Inr n \<and>
           py_get attr ''time'' JNull = Inr t \<and>
           [(''object_id'', oid), (''attribute_name'', n),
            (''attribute_value'', JStr (py_str repr v)), (''attribute_time'', t)] \<in> set rows"
proof -
  from attributes_table_saved [OF ok] obtain rows
    where rows: "object_attributes_rows repr d = Inr rows"
      and st': "st' (full_schema self @ ''.object_attributes'') = Some rows"
    by auto
  from rows objs obtain rss where fe: "for_each (object_attribute_rows repr) objs = Inr rss"
    and cc: "rows = concat rss"
    by (auto simp: object_attributes_rows_def bindE_eq_Inr)
  from for_each_image [OF fe obj] obtain rs
    where rs: "rs \<in> set rss" "object_attribute_rows repr obj = Inr rs" by blast
  from rs(2) attrs obtain oid where oid: "py_getitem obj ''id'' = Inr oid"
    and inner: "for_each (object_attribute_row repr oid) attrs = Inr rs"
    by (auto simp: object_attribute_rows_def bindE_eq_Inr)
  from for_each_image [OF inner attr] obtain r
    where r: "r \<in> set rs" "object_attribute_row repr oid attr = Inr r" by blast
  from object_attribute_row_text [OF r(2)] val obtain n t
    where n: "py_getitem attr ''name'' = Inr n" and t: "py_get attr ''time'' JNull = Inr t"
      and req: "r = [(''object_id'', oid), (''attribute_name'', n),
                     (''attribute_value'', JStr (py_str repr v)), (''attribute_time'', t)]"
    by auto
  from r(1) rs(1) cc have "r \<in> set rows" by auto
  with st' oid n t req show ?thesis by blast
qed

lemma event_attribute_value_saved:
  assumes ok: "create_and_load_event_attributes_table repr self d st = (Inr (), st')"
    and events: "iter_item d ''events'' = Inr events" and event: "event \<in> set events"
    and attrs: "iter_get event ''attributes'' = Inr attrs" and attr: "attr \<in> set attrs"
    and val: "py_getitem attr ''value'' = Inr v"
  shows "\<exists>rows eid n. st' (full_schema self @ ''.event_attributes'') = Some rows \<and>
           py_getitem event ''id'' = Inr eid \<and> py_getitem attr ''name'' = Inr n \<and>
           [(''event_id'', eid), (''attribute_name'', n),
            (''attribute_value'', JStr (py_str repr v))] \<in> set rows"
proof -
  from event_attributes_table_saved [OF ok] obtain rows
    where rows: "event_attributes_rows repr d = Inr rows"
      and st': "st' (full_schema self @ ''.event_attributes'') = Some rows"
    by auto
  from rows events obtain rss where fe: "for_each (event_attribute_rows repr) events = Inr rss"
    and cc: "rows = concat rss"
    by (auto simp: event_attributes_rows_def bindE_eq_Inr)
  from for_each_image [OF fe event] obtain rs
    where rs: "rs \<in> set rss" "event_attribute_rows repr event = Inr rs" by blast
  from rs(2) attrs obtain eid where eid: "py_getitem event ''id'' = Inr eid"
    and inner: "for_each (event_attribute_row repr eid) attrs = Inr rs"
    by (auto simp: event_attribute_rows_def bindE_eq_Inr)
  from for_each_image [OF inner attr] obtain r
    where r: "r \<in> set rs" "event_attribute_row repr eid attr = Inr r" by blast
  from event_attribute_row_text [OF r(2)] val obtain n
    where n: "py_getitem attr ''name'' = Inr n"
      and req: "r = [(''event_id'', eid), (''attribute_name'', n),
                     (''attribute_value'', JStr (py_str repr v))]"
    by auto
  from r(1) rs(1) cc have "r \<in> set rows" by auto
  with st' eid n req show ?thesis by blast
qed

lemma object_attribute_values_are_text:
  assumes ok: "create_and_load_attributes_table repr self d st = (Inr (), st')"
  shows "\<exists>rows. st' (full_schema self @ ''.object_attributes'') = Some rows \<and>
           (\<forall>r\<in>set rows. \<exists>s. map_of r ''attribute_value'' = Some (JStr s) \<and>
               JStr (py_str repr (JStr s)) = JStr s)"
proof -
  from attributes_table_saved [OF ok] obtain rows
    where rows: "object_attributes_rows repr d = Inr rows"
      and st': "st' (full_schema self @ ''.object_attributes'') = Some rows"
    by auto
  from rows obtain objs rss where fe: "for_each (object_attribute_rows repr) objs = Inr rss"
    and cc: "rows = concat rss"
    by (auto simp: object_attributes_rows_def bindE_eq_Inr)
  have "\<exists>s. map_of r ''attribute_value'' = Some (JStr s) \<and> JStr (py_str repr (JStr s)) = JStr s"
    if "r \<in> set rows" for r
  proof -
    from that cc obtain rs where rs: "rs \<in> set rss" "r \<in> set rs" by auto
    from for_each_source [OF fe rs(1)] obtain obj
      where "object_attribute_rows repr obj = Inr rs" by blast
    then obtain oid attrs where "for_each (object_attribute_row repr oid) attrs = Inr rs"
      by (auto simp: object_attribute_rows_def bindE_eq_Inr)
    from for_each_source [OF this rs(2)] obtain attr
      where "object_attribute_row repr oid attr = Inr r" by blast
    from object_attribute_row_text [OF this] show ?thesis by auto
  qed
  with st' show ?thesis by blast
qed

lemma event_attribute_values_are_text:
  assumes ok: "create_and_load_event_attributes_table repr self d st = (Inr (), st')"
  shows "\<exists>rows. st' (full_schema self @ ''.event_attributes'') = Some rows \<and>
           (\<forall>r\<in>set rows. \<exists>s. map_of r ''attribute_value'' = Some (JStr s) \<and>
               JStr (py_str repr (JStr s)) = JStr s)"
proof -
  from event_attributes_table_saved [OF ok] obtain rows
    where rows: "event_attributes_rows repr d = Inr rows"
      and st': "st' (full_schema self @ ''.event_attributes'') = Some rows"
    by auto
  from rows obtain events rss where fe: "for_each (event_attribute_rows repr) events = Inr rss"
    and cc: "rows = concat rss"
    by (auto simp: event_attributes_rows_def bindE_eq_Inr)
  have "\<exists>s. map_of r ''attribute_value'' = Some (JStr s) \<and> JStr (py_str repr (JStr s)) = JStr s"
    if "r \<in> set rows" for r
  proof -
    from that cc obtain rs where rs: "rs \<in> set rss" "r \<in> set rs" by auto
    from for_each_source [OF fe rs(1)] obtain event
      where "event_attribute_rows repr event = Inr rs" by blast
    then obtain eid attrs where "for_each (event_attribute_row repr eid) attrs = Inr rs"
      by (auto simp: event_attribute_rows_def bindE_eq_Inr)
    from for_each_source [OF this rs(2)] obtain attr
      where "event_attribute_row repr eid attr = Inr r" by blast
    from event_attribute_row_text [OF this] show ?thesis by auto
  qed
  with st' show ?thesis by blast
qed

lemma text_of_value:
  "(case v of
      JStr s \<Rightarrow> JStr s
    | JBool b \<Rightarrow> JStr (if b then ''True'' else ''False'')
    | JInt i \<Rightarrow> JStr (int_str i)
    | _ \<Rightarrow> JStr (py_str repr v)) = JStr (py_str repr v)"
  by (cases v) simp_all

text \<open>
  C6. In the saved object\_attributes table and in the saved event\_attributes table, the
  row of an attribute holds \<^verbatim>\<open>str(value)\<close> as its attribute\_value: for a string value the
  string itself, for a bool True or False, for an int its decimal digits (for a float
  the text the interpreter prints). Every attribute\_value in either table is a str, and
  taking the text of a stored value again gives the stored value:
  \<^verbatim>\<open>str(str(x)) == str(x)\<close>.
\<close>

theorem attribute_values_stored_as_text:
  "(create_and_load_attributes_table repr self d st = (Inr (), st') \<longrightarrow>
      (\<exists>rows. st' (full_schema self @ ''.object_attributes'') = Some rows \<and>
         (\<forall>r\<in>set rows. \<exists>s. map_of r ''attribute_value'' = Some (JStr s) \<and>
             JStr (py_str repr (JStr s)) = JStr s) \<and>
         (\<forall>objs obj attrs attr v.
            iter_item d ''objects'' = Inr objs \<longrightarrow> obj \<in> set objs \<longrightarrow>
            iter_get obj ''attributes'' = Inr attrs \<longrightarrow> attr \<in> set attrs \<longrightarrow>
            py_getitem attr ''value'' = Inr v \<longrightarrow>
              (\<exists>oid n t. py_getitem obj ''id'' = Inr oid \<and> py_getitem attr ''name'' = Inr n \<and>
                 py_get attr ''time'' JNull = Inr t \<and>
                 [(''object_id'', oid), (''attribute_name'', n),
                  (''attribute_value'',
                     (case v of
                        JStr s \<Rightarrow> JStr s
                      | JBool b \<Rightarrow> JStr (if b then ''True'' else ''False'')
                      | JInt i \<Rightarrow> JStr (int_str i)
                      | _ \<Rightarrow> JStr (py_str repr v))),
                  (''attribute_time'', t)] \<in> set rows \<and>
                 py_str repr (JStr (py_str repr v)) = py_str repr v))))
   \<and>
   (create_and_load_event_attributes_table repr self d st = (Inr (), st2') \<longrightarrow>
      (\<exists>rows. st2' (full_schema self @ ''.event_attributes'') = Some rows \<and>
         (\<forall>r\<in>set rows. \<exists>s. map_of r ''attribute_value'' = Some (JStr s) \<and>
             JStr (py_str repr (JStr s)) = JStr s) \<and>
         (\<forall>events event attrs attr v.
            iter_item d ''events'' = Inr events \<longrightarrow> event \<in> set events \<longrightarrow>
            iter_get event ''attributes'' = Inr attrs \<longrightarrow> attr \<in> set attrs \<longrightarrow>
            py_getitem attr ''value'' = Inr v \<longrightarrow>
              (\<exists>eid n. py_getitem event ''id'' = Inr eid \<and> py_getitem attr ''name'' = Inr n \<and>
                 [(''event_id'', eid), (''attribute_name'', n),
                  (''attribute_value'',
                     (case v of
                        JStr s \<Rightarrow> JStr s
                      | JBool b \<Rightarrow> JStr (if b then ''True'' else ''False'')
                      | JInt i \<Rightarrow> JStr (int_str i)
                      | _ \<Rightarrow> JStr (py_str repr v)))] \<in> set rows \<and>
                 py_str repr (JStr (py_str repr v)) = py_str repr v))))"
proof (intro conjI impI)
    assume ok: "create_and_load_attributes_table repr self d st = (Inr (), st')"
    from object_attribute_values_are_text [OF ok] obtain rows
      where st': "st' (full_schema self @ ''.object_attributes'') = Some rows"
        and strs: "\<forall>r\<in>set rows. \<exists>s. map_of r ''attribute_value'' = Some (JStr s) \<and>
             JStr (py_str repr (JStr s)) = JStr s"
      by blast
    have "\<exists>oid n t. py_getitem obj ''id'' = Inr oid \<and> py_getitem attr ''name'' = Inr n \<and>
                 py_get attr ''time'' JNull = Inr t \<and>
                 [(''object_id'', oid), (''attribute_name'', n),
                  (''attribute_value'',
                     (case v of
                        JStr s \<Rightarrow> JStr s
                      | JBool b \<Rightarrow> JStr (if b then ''True'' else ''False'')
                      | JInt i \<Rightarrow> JStr (int_str i)
                      | _ \<Rightarrow> JStr (py_str repr v))),
                  (''attribute_time'', t)] \<in> set rows \<and>
                 py_str repr (JStr (py_str repr v)) = py_str repr v"
      if "iter_item d ''objects'' = Inr objs" "obj \<in> set objs"
        "iter_get obj ''attributes'' = Inr attrs" "attr \<in> set attrs"
        "py_getitem attr ''value'' = Inr v" for objs obj attrs attr v
      using object_attribute_value_saved [OF ok that] st' by (auto simp: text_of_value)
    with st' strs
    show "\<exists>rows. st' (full_schema self @ ''.object_attributes'') = Some rows \<and>
         (\<forall>r\<in>set rows. \<exists>s. map_of r ''attribute_value'' = Some (JStr s) \<and>
             JStr (py_str repr (JStr s)) = JStr s) \<and>
         (\<forall>objs obj attrs attr v.
            iter_item d ''objects'' = Inr objs \<longrightarrow> obj \<in> set objs \<longrightarrow>
            iter_get obj ''attributes'' = Inr attrs \<longrightarrow> attr \<in> set attrs \<longrightarrow>
            py_getitem attr ''value'' = Inr v \<longrightarrow>
              (\<exists>oid n t. py_getitem obj ''id'' = Inr oid \<and> py_getitem attr ''name'' = Inr n \<and>
                 py_get attr ''time'' JNull = Inr t \<and>
                 [(''object_id'', oid), (''attribute_name'', n),
                  (''attribute_value'',
                     (case v of
                        JStr s \<Rightarrow> JStr s
                      | JBool b \<Rightarrow> JStr (if b then ''True'' else ''False'')
                      | JInt i \<Rightarrow> JStr (int_str i)
                      | _ \<Rightarrow> JStr (py_str repr v))),
                  (''attribute_time'', t)] \<in> set rows \<and>
                 py_str repr (JStr (py_str repr v)) = py_str repr v))"
      by blast
next
    assume ok: "create_and_load_event_attributes_table repr self d st = (Inr (), st2')"
    from event_attribute_values_are_text [OF ok] obtain rows
      where st': "st2' (full_schema self @ ''.event_attributes'') = Some rows"
        and strs: "\<forall>r\<in>set rows. \<exists>s. map_of r ''attribute_value'' = Some (JStr s) \<and>
             JStr (py_str repr (JStr s)) = JStr s"
      by blast
    have "\<exists>eid n. py_getitem event ''id'' = Inr eid \<and> py_getitem attr ''name'' = Inr n \<and>
                 [(''event_id'', eid), (''attribute_name'', n),
                  (''attribute_value'',
                     (case v of
                        JStr s \<Rightarrow> JStr s
                      | JBool b \<Rightarrow> JStr (if b then ''True'' else ''False'')
                      | JInt i \<Rightarrow> JStr (int_str i)
                      | _ \<Rightarrow> JStr (py_str repr v)))] \<in> set rows \<and>
                 py_str repr (JStr (py_str repr v)) = py_str repr v"
      if "iter_item d ''events'' = Inr events" "event \<in> set events"
        "iter_get event ''attributes'' = Inr attrs" "attr \<in> set attrs"
        "py_getitem attr ''value'' = Inr v" for events event attrs attr v
      using event_attribute_value_saved [OF ok that] st' by (auto simp: text_of_value)
    with st' strs
    show "\<exists>rows. st2' (full_schema self @ ''.event_attributes'') = Some rows \<and>
         (\<forall>r\<in>set rows. \<exists>s. map_of r ''attribute_value'' = Some (JStr s) \<and>
             JStr (py_str repr (JStr s)) = JStr s) \<and>
         (\<forall>events event attrs attr v.
            iter_item d ''events'' = Inr events \<longrightarrow> event \<in> set events \<longrightarrow>
            iter_get event ''attributes'' = Inr attrs \<longrightarrow> attr \<in> set attrs \<longrightarrow>
            py_getitem attr ''value'' = Inr v \<longrightarrow>
              (\<exists>eid n. py_getitem event ''id'' = Inr eid \<and> py_getitem attr ''name'' = Inr n \<and>
                 [(''event_id'', eid), (''attribute_name'', n),
                  (''attribute_value'',
                     (case v of
                        JStr s \<Rightarrow> JStr s
                      | JBool b \<Rightarrow> JStr (if b then ''True'' else ''False'')
                      | JInt i \<Rightarrow> JStr (int_str i)
                      | _ \<Rightarrow> JStr (py_str repr v)))] \<in> set rows \<and>
                 py_str repr (JStr (py_str repr v)) = py_str repr v))"
      by blast
qed

lemma int_str_42: "int_str 42 = ''42''"
  by (simp add: int_str_def nat_str.simps digit_char_def)

theorem attribute_values_stored_as_text_witness:
  "fst (create_and_load_attributes_table (\<lambda>v. []) (OCELUCSchema ''main'' ''logistics'')
          example_document empty_catalog) = Inr ()
   \<and> fst (create_and_load_event_attributes_table (\<lambda>v. []) (OCELUCSchema ''main'' ''logistics'')
          example_document empty_catalog) = Inr ()
   \<and> (\<exists>rows. snd (create_and_load_attributes_table (\<lambda>v. []) (OCELUCSchema ''main'' ''logistics'')
          example_document empty_catalog) ''main.logistics.object_attributes'' = Some rows
        \<and> [(''object_id'', JStr ''o1''), (''attribute_name'', JStr ''price''),
            (''attribute_value'', JStr ''42''),
            (''attribute_time'', JStr ''2024-01-01T00:00:00Z'')] \<in> set rows
        \<and> [(''object_id'', JStr ''o1''), (''attribute_name'', JStr ''paid''),
            (''attribute_value'', JStr ''True''), (''attribute_time'', JNull)] \<in> set rows)
   \<and> (\<exists>rows. snd (create_and_load_event_attributes_table (\<lambda>v. [])
          (OCELUCSchema ''main'' ''logistics'') example_document empty_catalog)
            ''main.logistics.event_attributes'' = Some rows
        \<and> [(''event_id'', JStr ''e1''), (''attribute_name'', JStr ''channel''),
            (''attribute_value'', JStr ''web'')] \<in> set rows)
   \<and> py_str (\<lambda>v. []) (JStr (py_str (\<lambda>v. []) (JInt 42))) = py_str (\<lambda>v. []) (JInt 42)
   \<and> py_str (\<lambda>v. []) (JStr (py_str (\<lambda>v. []) (JBool True))) = py_str (\<lambda>v. []) (JBool True)"
proof -
  let ?self = "OCELUCSchema ''main'' ''logistics''"
  let ?price = "JObj [(''name'', JStr ''price''), (''value'', JInt 42),
                      (''time'', JStr ''2024-01-01T00:00:00Z'')]"
  let ?paid = "JObj [(''name'', JStr ''paid''), (''value'', JBool True)]"
  let ?channel = "JObj [(''name'', JStr ''channel''), (''value'', JStr ''web'')]"
  let ?o1 = "JObj [(''id'', JStr ''o1''), (''type'', JStr ''order''),
                   (''attributes'', JArr [?price, ?paid]),
                   (''relationships'', JArr [JObj [(''objectId'', JStr ''o2'')]])]"
  let ?o2 = "JObj [(''id'', JStr ''o2''), (''type'', JStr ''item'')]"
  let ?e1 = "JObj [(''id'', JStr ''e1''), (''type'', JStr ''place''),
                   (''time'', JStr ''2024-01-01T00:00:00Z''),
                   (''attributes'', JArr [?channel]),
                   (''relationships'', JArr [JObj [(''objectId'', JStr ''o1'')]])]"
  let ?A = "create_and_load_attributes_table (\<lambda>v. []) ?self example_document empty_catalog"
  let ?B = "create_and_load_event_attributes_table (\<lambda>v. []) ?self example_document
              empty_catalog"
  have f1: "fst ?A = Inr ()"
    by (simp add: method_defs rows_defs example_document_def)
  have f2: "fst ?B = Inr ()"
    by (simp add: method_defs rows_defs example_document_def)
  have a: "?A = (Inr (), snd ?A)"
    using f1 by (simp add: prod_eq_iff)
  have b: "?B = (Inr (), snd ?B)"
    using f2 by (simp add: prod_eq_iff)
  have objs: "iter_item example_document ''objects'' = Inr [?o1, ?o2]"
    by (simp add: iter_item_def example_document_def)
  have events: "iter_item example_document ''events'' = Inr [?e1]"
    by (simp add: iter_item_def example_document_def)
  have oattrs: "iter_get ?o1 ''attributes'' = Inr [?price, ?paid]"
    by (simp add: iter_get_def)
  have eattrs: "iter_get ?e1 ''attributes'' = Inr [?channel]"
    by (simp add: iter_get_def)
  have fs: "full_schema ?self = ''main.logistics''"
    by (simp add: OCELUCSchema_def)
  note inst = attribute_values_stored_as_text
    [where repr = "\<lambda>v. []" and self = ?self and d = example_document and st = empty_catalog]
  from inst [THEN conjunct1, rule_format, OF a] obtain orows
    where os: "snd ?A (full_schema ?self @ ''.object_attributes'') = Some orows"
      and oall: "\<forall>objs obj attrs attr v.
            iter_item example_document ''objects'' = Inr objs \<longrightarrow> obj \<in> set objs \<longrightarrow>
            iter_get obj ''attributes'' = Inr attrs \<longrightarrow> attr \<in> set attrs \<longrightarrow>
            py_getitem attr ''value'' = Inr v \<longrightarrow>
              (\<exists>oid n t. py_getitem obj ''id'' = Inr oid \<and> py_getitem attr ''name'' = Inr n \<and>
                 py_get attr ''time'' JNull = Inr t \<and>
                 [(''object_id'', oid), (''attribute_name'', n),
                  (''attribute_value'',
                     (case v of
                        JStr s \<Rightarrow> JStr s
                      | JBool b \<Rightarrow> JStr (if b then ''True'' else ''False'')
                      | JInt i \<Rightarrow> JStr (int_str i)
                      | _ \<Rightarrow> JStr (py_str (\<lambda>v. []) v))),
                  (''attribute_time'', t)] \<in> set orows \<and>
                 py_str (\<lambda>v. []) (JStr (py_str (\<lambda>v. []) v)) = py_str (\<lambda>v. []) v)"
    by blast
  from inst [THEN conjunct2, rule_format, OF b] obtain erows
    where es: "snd ?B (full_schema ?self @ ''.event_attributes'') = Some erows"
      and eall: "\<forall>events event attrs attr v.
            iter_item example_document ''events'' = Inr events \<longrightarrow> event \<in> set events \<longrightarrow>
            iter_get event ''attributes'' = Inr attrs \<longrightarrow> attr \<in> set attrs \<longrightarrow>
            py_getitem attr ''value'' = Inr v \<longrightarrow>
              (\<exists>eid n. py_getitem event ''id'' = Inr eid \<and> py_getitem attr ''name'' = Inr n \<and>
                 [(''event_id'', eid), (''attribute_name'', n),
                  (''attribute_value'',
                     (case v of
                        JStr s \<Rightarrow> JStr s
                      | JBool b \<Rightarrow> JStr (if b then ''True'' else ''False'')
                      | JInt i \<Rightarrow> JStr (int_str i)
                      | _ \<Rightarrow> JStr (py_str (\<lambda>v. []) v)))] \<in> set erows \<and>
                 py_str (\<lambda>v. []) (JStr (py_str (\<lambda>v. []) v)) = py_str (\<lambda>v. []) v)"
    by blast
  from oall [rule_format, OF objs _ oattrs, of ?price "JInt 42"]
  have price: "[(''object_id'', JStr ''o1''), (''attribute_name'', JStr ''price''),
            (''attribute_value'', JStr ''42''),
            (''attribute_time'', JStr ''2024-01-01T00:00:00Z'')] \<in> set orows
      \<and> py_str (\<lambda>v. []) (JStr (py_str (\<lambda>v. []) (JInt 42))) = py_str (\<lambda>v. []) (JInt 42)"
    by (simp add: int_str_42)
  from oall [rule_format, OF objs _ oattrs, of ?paid "JBool True"]
  have paid: "[(''object_id'', JStr ''o1''), (''attribute_name'', JStr ''paid''),
            (''attribute_value'', JStr ''True''), (''attribute_time'', JNull)] \<in> set orows
      \<and> py_str (\<lambda>v. []) (JStr (py_str (\<lambda>v. []) (JBool True))) = py_str (\<lambda>v. []) (JBool True)"
    by simp
  from eall [rule_format, OF events _ eattrs, of ?channel "JStr ''web''"]
  have channel: "[(''event_id'', JStr ''e1''), (''attribute_name'', JStr ''channel''),
            (''attribute_value'', JStr ''web'')] \<in> set erows"
    by simp
  from os have os': "snd ?A ''main.logistics.object_attributes'' = Some orows"
    by (simp add: fs)
  from es have es': "snd ?B ''main.logistics.event_attributes'' = Some erows"
    by (simp add: fs)
  from f1 f2 os' es' price paid channel show ?thesis by blast
qed

section \<open>Absent nested arrays\<close>

text \<open>
  C2 at a document whose type entries have a name and no \<^verbatim>\<open>attributes\<close> key: the
  object\_types method and the event\_types method read the key with a subscript, raise
  KeyError and write no table, where the claim wants zero rows and no error. The methods
  for objects and events read the same key with \<^verbatim>\<open>get('attributes', [])\<close>.
\<close>

theorem absent_attributes_of_a_type_raise:
  "fst (create_and_load_object_types_table (OCELUCSchema ''main'' ''logistics'')
          bare_type_document empty_catalog) = Inl (KeyError ''attributes'')
   \<and> snd (create_and_load_object_types_table (OCELUCSchema ''main'' ''logistics'')
          bare_type_document empty_catalog) ''main.logistics.object_types'' = None
   \<and> fst (create_and_load_event_types_table (OCELUCSchema ''main'' ''logistics'')
          bare_type_document empty_catalog) = Inl (KeyError ''attributes'')
   \<and> snd (create_and_load_event_types_table (OCELUCSchema ''main'' ''logistics'')
          bare_type_document empty_catalog) ''main.logistics.event_types'' = None"
  by (simp add: method_defs rows_defs bare_type_document_def empty_catalog_def)

lemma object_types_fail:
  assumes "iter_item d ''objectTypes'' = Inr ts" and "JObj kvs \<in> set ts"
    and "map_of kvs ''attributes'' = None"
  shows "\<exists>e. create_and_load_object_types_table self d st = (Inl e, st)"
proof -
  have "\<exists>e. object_type_rows (JObj kvs) = Inl e"
    using assms(3) by (cases "map_of kvs ''name''") (simp_all add: object_type_rows_def iter_item_def)
  then obtain e where "object_type_rows (JObj kvs) = Inl e" ..
  from for_each_fails [where f = object_type_rows, OF assms(2) this] obtain e' where "for_each object_type_rows ts = Inl e'" ..
  with assms(1) show ?thesis
    by (simp add: create_and_load_object_types_table_def object_types_rows_def)
qed

lemma event_types_fail:
  assumes "iter_item d ''eventTypes'' = Inr ts" and "JObj kvs \<in> set ts"
    and "map_of kvs ''attributes'' = None"
  shows "\<exists>e. create_and_load_event_types_table self d st = (Inl e, st)"
proof -
  have "\<exists>e. event_type_rows (JObj kvs) = Inl e"
    using assms(3) by (cases "map_of kvs ''name''") (simp_all add: event_type_rows_def iter_item_def)
  then obtain e where "event_type_rows (JObj kvs) = Inl e" ..
  from for_each_fails [where f = event_type_rows, OF assms(2) this] obtain e' where "for_each event_type_rows ts = Inl e'" ..
  with assms(1) show ?thesis
    by (simp add: create_and_load_event_types_table_def event_types_rows_def)
qed

text \<open>
  What the code does with an absent nested array, element by element. An object or event
  without an \<^verbatim>\<open>attributes\<close> or \<^verbatim>\<open>relationships\<close> key contributes no row and raises
  nothing; an entry of objectTypes or eventTypes without an \<^verbatim>\<open>attributes\<close> key raises
  KeyError, and the method then writes no table.
\<close>

theorem absent_nested_array:
  "(map_of kvs ''id'' = Some i \<longrightarrow> map_of kvs ''attributes'' = None \<longrightarrow>
      object_attribute_rows repr (JObj kvs) = Inr [] \<and>
      event_attribute_rows repr (JObj kvs) = Inr [])
   \<and> (map_of kvs ''id'' = Some i \<longrightarrow> map_of kvs ''relationships'' = None \<longrightarrow>
      object_relationship_rows (JObj kvs) = Inr [] \<and>
      event_object_relationship_rows (JObj kvs) = Inr [])
   \<and> (map_of kvs ''name'' = Some n \<longrightarrow> map_of kvs ''attributes'' = None \<longrightarrow>
      object_type_rows (JObj kvs) = Inl (KeyError ''attributes'') \<and>
      event_type_rows (JObj kvs) = Inl (KeyError ''attributes''))
   \<and> (iter_item d ''objectTypes'' = Inr ts \<longrightarrow> JObj kvs \<in> set ts \<longrightarrow>
      map_of kvs ''attributes'' = None \<longrightarrow>
      (\<exists>e. create_and_load_object_types_table self d st = (Inl e, st)))
   \<and> (iter_item d ''eventTypes'' = Inr ts \<longrightarrow> JObj kvs \<in> set ts \<longrightarrow>
      map_of kvs ''attributes'' = None \<longrightarrow>
      (\<exists>e. create_and_load_event_types_table self d st = (Inl e, st)))"
proof (intro conjI impI)
  assume "map_of kvs ''id'' = Some i" "map_of kvs ''attributes'' = None"
  then show "object_attribute_rows repr (JObj kvs) = Inr []"
    and "event_attribute_rows repr (JObj kvs) = Inr []"
    by (simp_all add: object_attribute_rows_def event_attribute_rows_def iter_get_def)
next
  assume "map_of kvs ''id'' = Some i" "map_of kvs ''relationships'' = None"
  then show "object_relationship_rows (JObj kvs) = Inr []"
    and "event_object_relationship_rows (JObj kvs) = Inr []"
    by (simp_all add: object_relationship_rows_def event_object_relationship_rows_def iter_get_def)
next
  assume "map_of kvs ''name'' = Some n" "map_of kvs ''attributes'' = None"
  then show "object_type_rows (JObj kvs) = Inl (KeyError ''attributes'')"
    and "event_type_rows (JObj kvs) = Inl (KeyError ''attributes'')"
    by (simp_all add: object_type_rows_def event_type_rows_def iter_item_def)
next
  assume "iter_item d ''objectTypes'' = Inr ts" "JObj kvs \<in> set ts"
    "map_of kvs ''attributes'' = None"
  then show "\<exists>e. create_and_load_object_types_table self d st = (Inl e, st)"
    by (rule object_types_fail)
next
  assume "iter_item d ''eventTypes'' = Inr ts" "JObj kvs \<in> set ts"
    "map_of kvs ''attributes'' = None"
  then show "\<exists>e. create_and_load_event_types_table self d st = (Inl e, st)"
    by (rule event_types_fail)
qed

theorem absent_nested_array_witness:
  "object_attribute_rows (\<lambda>v. []) (JObj [(''id'', JStr ''o2''), (''type'', JStr ''item'')]) = Inr []
   \<and> event_attribute_rows (\<lambda>v. []) (JObj [(''id'', JStr ''o2''), (''type'', JStr ''item'')]) = Inr []
   \<and> object_relationship_rows (JObj [(''id'', JStr ''o2''), (''type'', JStr ''item'')]) = Inr []
   \<and> event_object_relationship_rows (JObj [(''id'', JStr ''o2''), (''type'', JStr ''item'')])
        = Inr []
   \<and> object_type_rows (JObj [(''name'', JStr ''order'')]) = Inl (KeyError ''attributes'')
   \<and> event_type_rows (JObj [(''name'', JStr ''order'')]) = Inl (KeyError ''attributes'')
   \<and> (\<exists>e. create_and_load_object_types_table (OCELUCSchema ''main'' ''logistics'')
             bare_type_document empty_catalog = (Inl e, empty_catalog))
   \<and> (\<exists>e. create_and_load_event_types_table (OCELUCSchema ''main'' ''logistics'')
             bare_type_document empty_catalog = (Inl e, empty_catalog))"
proof -
  let ?obj = "[(''id'', JStr ''o2''), (''type'', JStr ''item'')]"
  let ?ty = "[(''name'', JStr ''order'')]"
  let ?ety = "[(''name'', JStr ''place'')]"
  have id: "map_of ?obj ''id'' = Some (JStr ''o2'')" by simp
  have na: "map_of ?obj ''attributes'' = None" by simp
  have nr: "map_of ?obj ''relationships'' = None" by simp
  have nm: "map_of ?ty ''name'' = Some (JStr ''order'')" by simp
  have ta: "map_of ?ty ''attributes'' = None" by simp
  have eta: "map_of ?ety ''attributes'' = None" by simp
  have ots: "iter_item bare_type_document ''objectTypes'' = Inr [JObj ?ty]"
    by (simp add: iter_item_def bare_type_document_def)
  have ets: "iter_item bare_type_document ''eventTypes'' = Inr [JObj ?ety]"
    by (simp add: iter_item_def bare_type_document_def)
  note elem = absent_nested_array [where kvs = ?obj and i = "JStr ''o2''" and repr = "\<lambda>v. []"]
  note ty = absent_nested_array [where kvs = ?ty and n = "JStr ''order''"
      and d = bare_type_document and ts = "[JObj ?ty]"
      and self = "OCELUCSchema ''main'' ''logistics''" and st = empty_catalog]
  note ety = absent_nested_array [where kvs = ?ety
      and d = bare_type_document and ts = "[JObj ?ety]"
      and self = "OCELUCSchema ''main'' ''logistics''" and st = empty_catalog]
  from elem [THEN conjunct1, rule_format, OF id na]
  have a: "object_attribute_rows (\<lambda>v. []) (JObj ?obj) = Inr []
     \<and> event_attribute_rows (\<lambda>v. []) (JObj ?obj) = Inr []" .
  from elem [THEN conjunct2, THEN conjunct1, rule_format, OF id nr]
  have b: "object_relationship_rows (JObj ?obj) = Inr []
     \<and> event_object_relationship_rows (JObj ?obj) = Inr []" .
  from ty [THEN conjunct2, THEN conjunct2, THEN conjunct1, rule_format, OF nm ta]
  have c: "object_type_rows (JObj ?ty) = Inl (KeyError ''attributes'')
     \<and> event_type_rows (JObj ?ty) = Inl (KeyError ''attributes'')" .
  from ty [THEN conjunct2, THEN conjunct2, THEN conjunct2, THEN conjunct1, rule_format, OF ots _ ta]
  have d: "\<exists>e. create_and_load_object_types_table (OCELUCSchema ''main'' ''logistics'')
             bare_type_document empty_catalog = (Inl e, empty_catalog)"
    by simp
  from ety [THEN conjunct2, THEN conjunct2, THEN conjunct2, THEN conjunct2, rule_format,
      OF ets _ eta]
  have e: "\<exists>e. create_and_load_event_types_table (OCELUCSchema ''main'' ''logistics'')
             bare_type_document empty_catalog = (Inl e, empty_catalog)"
    by simp
  from a b c d e show ?thesis by blast
qed

section \<open>The minimal document, end to end\<close>

text \<open>
  C1 at the minimal document. The run writes the empty object\_types and event\_types
  tables and then raises AttributeError: line 255 calls
  \<^verbatim>\<open>_create_and_load_objects_table\<close>, and the class defines
  \<^verbatim>\<open>create_and_load_objects_table\<close>. Called one by one, the objects method and the
  events method write the one row each that the claim names, and the
  event\_object\_relationships method, which has no branch for an empty list of rows,
  raises ValueError and writes no table.
\<close>

theorem minimal_document_run:
  "write_ocel_json_to_schema repr [''/Volumes/main/logistics/raw/ocel.json'' \<mapsto> minimal_document]
      (OCELUCSchema ''main'' ''logistics'') ''/Volumes/main/logistics/raw/ocel.json'' empty_catalog =
     (Inl (AttributeError ''_create_and_load_objects_table''),
      empty_catalog(''main.logistics.object_types'' \<mapsto> [],
                    ''main.logistics.event_types'' \<mapsto> []))
   \<and> create_and_load_objects_table (OCELUCSchema ''main'' ''logistics'') minimal_document st =
       (Inr (), st(''main.logistics.objects'' \<mapsto>
          [[(''object_id'', JStr ''o1''), (''object_type'', JStr ''order'')]]))
   \<and> create_and_load_events_table (OCELUCSchema ''main'' ''logistics'') minimal_document st =
       (Inr (), st(''main.logistics.events'' \<mapsto>
          [[(''event_id'', JStr ''e1''), (''event_type'', JStr ''place''),
            (''event_time'', JStr ''2024-01-01T00:00:00Z'')]]))
   \<and> create_and_load_event_object_relationships_table (OCELUCSchema ''main'' ''logistics'')
        minimal_document st = (Inl ValueError, st)"
proof (intro conjI)
  show "write_ocel_json_to_schema repr
      [''/Volumes/main/logistics/raw/ocel.json'' \<mapsto> minimal_document]
      (OCELUCSchema ''main'' ''logistics'') ''/Volumes/main/logistics/raw/ocel.json'' empty_catalog =
     (Inl (AttributeError ''_create_and_load_objects_table''),
      empty_catalog(''main.logistics.object_types'' \<mapsto> [],
                    ''main.logistics.event_types'' \<mapsto> []))"
    by (simp add: write_ocel_json_to_schema_def load_ocel_json_def create_all_tables_def
          call_method_def class_methods_def method_defs rows_defs minimal_document_def
          OCELUCSchema_def)
next
  show "create_and_load_objects_table (OCELUCSchema ''main'' ''logistics'') minimal_document st =
       (Inr (), st(''main.logistics.objects'' \<mapsto>
          [[(''object_id'', JStr ''o1''), (''object_type'', JStr ''order'')]]))"
    by (simp add: method_defs rows_defs minimal_document_def OCELUCSchema_def)
next
  show "create_and_load_events_table (OCELUCSchema ''main'' ''logistics'') minimal_document st =
       (Inr (), st(''main.logistics.events'' \<mapsto>
          [[(''event_id'', JStr ''e1''), (''event_type'', JStr ''place''),
            (''event_time'', JStr ''2024-01-01T00:00:00Z'')]]))"
    by (simp add: method_defs rows_defs minimal_document_def OCELUCSchema_def)
next
  show "create_and_load_event_object_relationships_table (OCELUCSchema ''main'' ''logistics'')
        minimal_document st = (Inl ValueError, st)"
    by (simp add: method_defs rows_defs minimal_document_def OCELUCSchema_def)
qed

section \<open>A run that fails part of the way\<close>

lemma first_two_tables:
  assumes "object_types_rows d = Inr rows1"
  shows "snd (call_in_order repr self create_all_tables d st)
           (full_schema self @ ''.object_types'') = Some rows1"
    and "event_types_rows d = Inr rows2 \<Longrightarrow>
         snd (call_in_order repr self create_all_tables d st)
           (full_schema self @ ''.event_types'') = Some rows2"
  using assms
  by (auto simp: create_all_tables_def call_method_def class_methods_def
        create_and_load_object_types_table_def create_and_load_event_types_table_def
        guarded_df save_df_def saveAsTable_def split: sum.splits)

text \<open>
  C7. When the conversion ends in an exception, the calls before the failing one all
  succeeded, and the catalog at the end is the catalog those calls left: the failing call
  changes nothing and nothing is undone. In particular the object\_types table, and the
  event\_types table when its rows were extracted, hold their new rows.
\<close>

theorem failed_run_keeps_written_tables:
  assumes "load_ocel_json files json_path = Inr d"
      and "write_ocel_json_to_schema repr files self json_path st = (Inl e, st')"
  shows "(\<exists>finished failing rest. create_all_tables = finished @ failing # rest \<and>
            call_in_order repr self finished d st = (Inr (), st') \<and>
            call_method repr self failing d st' = (Inl e, st'))
         \<and> (\<forall>rows1. object_types_rows d = Inr rows1 \<longrightarrow>
               st' (full_schema self @ ''.object_types'') = Some rows1)
         \<and> (\<forall>rows1 rows2. object_types_rows d = Inr rows1 \<longrightarrow> event_types_rows d = Inr rows2 \<longrightarrow>
               st' (full_schema self @ ''.event_types'') = Some rows2)"
proof -
  from assms have run: "call_in_order repr self create_all_tables d st = (Inl e, st')"
    by (simp add: write_ocel_json_to_schema_def)
  then have st': "snd (call_in_order repr self create_all_tables d st) = st'" by simp
  from call_in_order_failure [OF run] first_two_tables [where d = d and repr = repr and self = self and st = st] st'
  show ?thesis by blast
qed


theorem failed_run_keeps_written_tables_witness:
  "load_ocel_json [''/Volumes/main/logistics/raw/ocel.json'' \<mapsto> bare_event_type_document]
      ''/Volumes/main/logistics/raw/ocel.json'' = Inr bare_event_type_document
   \<and> fst (write_ocel_json_to_schema (\<lambda>v. [])
        [''/Volumes/main/logistics/raw/ocel.json'' \<mapsto> bare_event_type_document]
        (OCELUCSchema ''main'' ''logistics'') ''/Volumes/main/logistics/raw/ocel.json''
        empty_catalog) = Inl (KeyError ''attributes'')
   \<and> snd (write_ocel_json_to_schema (\<lambda>v. [])
        [''/Volumes/main/logistics/raw/ocel.json'' \<mapsto> bare_event_type_document]
        (OCELUCSchema ''main'' ''logistics'') ''/Volumes/main/logistics/raw/ocel.json''
        empty_catalog) ''main.logistics.object_types'' =
       Some [[(''object_type_name'', JStr ''order''), (''attribute_name'', JStr ''price''),
              (''attribute_type'', JStr ''float'')]]
   \<and> call_method (\<lambda>v. []) (OCELUCSchema ''main'' ''logistics'')
        ''_create_and_load_event_types_table'' bare_event_type_document
        (snd (write_ocel_json_to_schema (\<lambda>v. [])
          [''/Volumes/main/logistics/raw/ocel.json'' \<mapsto> bare_event_type_document]
          (OCELUCSchema ''main'' ''logistics'') ''/Volumes/main/logistics/raw/ocel.json''
          empty_catalog)) =
       (Inl (KeyError ''attributes''),
        snd (write_ocel_json_to_schema (\<lambda>v. [])
          [''/Volumes/main/logistics/raw/ocel.json'' \<mapsto> bare_event_type_document]
          (OCELUCSchema ''main'' ''logistics'') ''/Volumes/main/logistics/raw/ocel.json''
          empty_catalog))"
proof -
  let ?self = "OCELUCSchema ''main'' ''logistics''"
  let ?path = "''/Volumes/main/logistics/raw/ocel.json''"
  let ?files = "[?path \<mapsto> bare_event_type_document]"
  let ?run = "write_ocel_json_to_schema (\<lambda>v. []) ?files ?self ?path empty_catalog"
  have l: "load_ocel_json ?files ?path = Inr bare_event_type_document"
    by (simp add: load_ocel_json_def)
  have f: "fst ?run = Inl (KeyError ''attributes'')"
    by (simp add: write_ocel_json_to_schema_def load_ocel_json_def create_all_tables_def
          call_method_def class_methods_def method_defs rows_defs bare_event_type_document_def)
  then have w: "?run = (Inl (KeyError ''attributes''), snd ?run)"
    by (simp add: prod_eq_iff)
  have rows1: "object_types_rows bare_event_type_document =
      Inr [[(''object_type_name'', JStr ''order''), (''attribute_name'', JStr ''price''),
            (''attribute_type'', JStr ''float'')]]"
    by (simp add: rows_defs bare_event_type_document_def)
  have fs: "full_schema ?self = ''main.logistics''"
    by (simp add: OCELUCSchema_def)
  note kept = failed_run_keeps_written_tables [OF l w]
  from kept [THEN conjunct2, THEN conjunct1, rule_format, OF rows1]
  have t1: "snd ?run ''main.logistics.object_types'' =
       Some [[(''object_type_name'', JStr ''order''), (''attribute_name'', JStr ''price''),
              (''attribute_type'', JStr ''float'')]]"
    by (simp add: fs)
  from kept [THEN conjunct1] obtain finished failing rest
    where split: "create_all_tables = finished @ failing # rest"
      and pre: "call_in_order (\<lambda>v. []) ?self finished bare_event_type_document empty_catalog =
                  (Inr (), snd ?run)"
      and fail: "call_method (\<lambda>v. []) ?self failing bare_event_type_document (snd ?run) =
                  (Inl (KeyError ''attributes''), snd ?run)"
    by blast
  have second: "call_method (\<lambda>v. []) ?self ''_create_and_load_event_types_table''
      bare_event_type_document (snd ?run) = (Inl (KeyError ''attributes''), snd ?run)"
    by (simp add: call_method_def class_methods_def method_defs rows_defs
          bare_event_type_document_def)
  from l f t1 second show ?thesis by blast
qed

section \<open>What a download returns\<close>

lemma stream_to_file_success:
  assumes "stream_to_file env url destination fs = (Inr n, fs')"
  shows "\<exists>response. env_get env url = Inr response \<and>
           fs' = fs(destination \<mapsto> concat (resp_chunks response)) \<and>
           n = length (concat (resp_chunks response))"
proof -
  have cc: "concat (filter (\<lambda>chunk. chunk \<noteq> []) cs) = concat cs" for cs :: "string list"
    by (induction cs) simp_all
  have ln: "sum_list (map length (filter (\<lambda>chunk. chunk \<noteq> []) cs)) = length (concat cs)"
    for cs :: "string list"
    by (induction cs) simp_all
  from assms show ?thesis
    by (auto simp: stream_to_file_def Let_def cc ln split: sum.splits option.splits)
qed

text \<open>
  C8, as stated, fails: a successful download by the function of src/ingest returns the
  destination path, a str, and not the pair of the path and the number of bytes written.
\<close>

theorem download_returns_no_byte_count:
  "fst (download_file example_environment ''https://example.org/ocel.json''
          ''/Volumes/main/logistics/raw'' ''ocel.json'' Map.empty) =
     Inr (PyStr ''/Volumes/main/logistics/raw/ocel.json'')
   \<and> snd (download_file example_environment ''https://example.org/ocel.json''
          ''/Volumes/main/logistics/raw'' ''ocel.json'' Map.empty)
        ''/Volumes/main/logistics/raw/ocel.json'' = Some ''[1, 2, 3]''
   \<and> fst (download_file example_environment ''https://example.org/ocel.json''
          ''/Volumes/main/logistics/raw'' ''ocel.json'' Map.empty) \<noteq>
     Inr (PyTuple [PyStr ''/Volumes/main/logistics/raw/ocel.json'', PyInt 9])"
  by (simp add: download_file_def stream_to_file_def os_path_join_def example_environment_def
        Let_def)


text \<open>
  C8, amended. A successful download by \<^verbatim>\<open>download_file\<close> of src/ingest or by
  \<^verbatim>\<open>OCEL2JSONUCImporter.download_file\<close> returns the destination path and nothing else;
  after the function of src/ingest, the file at that path holds the bytes of the response.
  The number of bytes is counted and printed, and is not part of what is returned.
\<close>

theorem download_returns_path_only:
  "(download_file env url folder_path file_name fs = (Inr v, fs') \<longrightarrow>
      v = PyStr (os_path_join folder_path file_name) \<and>
      (\<exists>response. env_get env url = Inr response \<and>
         fs' (os_path_join folder_path file_name) = Some (concat (resp_chunks response))))
   \<and> (OCEL2JSONUCImporter_download_file env self file_name fs = (Inr w, fs2') \<longrightarrow>
      w = PyStr (os_path_join (''/Volumes/'' @ the (ji_catalog self) @ ''/'' @
                     the (ji_schema self) @ ''/'' @ the (ji_volume self)) file_name) \<and>
      ji_url self \<noteq> None \<and> ji_catalog self \<noteq> None \<and> ji_schema self \<noteq> None \<and>
      ji_volume self \<noteq> None)"
proof (intro conjI impI)
  assume ok: "download_file env url folder_path file_name fs = (Inr v, fs')"
  then obtain n where v: "v = PyStr (os_path_join folder_path file_name)"
    and s: "stream_to_file env url (os_path_join folder_path file_name) fs = (Inr n, fs')"
    by (auto simp: download_file_def Let_def split: option.splits sum.splits prod.splits)
  from v show "v = PyStr (os_path_join folder_path file_name)" .
  from stream_to_file_success [OF s]
  show "\<exists>response. env_get env url = Inr response \<and>
         fs' (os_path_join folder_path file_name) = Some (concat (resp_chunks response))"
    by auto
next
  assume ok: "OCEL2JSONUCImporter_download_file env self file_name fs = (Inr w, fs2')"
  then show "w = PyStr (os_path_join (''/Volumes/'' @ the (ji_catalog self) @ ''/'' @
                     the (ji_schema self) @ ''/'' @ the (ji_volume self)) file_name)"
    by (auto simp: OCEL2JSONUCImporter_download_file_def Let_def
          split: option.splits sum.splits prod.splits if_splits)
  from ok show "ji_url self \<noteq> None" "ji_catalog self \<noteq> None" "ji_schema self \<noteq> None"
    "ji_volume self \<noteq> None"
    by (auto simp: OCEL2JSONUCImporter_download_file_def split: if_splits)
qed

theorem download_returns_path_only_witness:
  "fst (download_file example_environment ''https://example.org/ocel.json''
          ''/Volumes/main/logistics/raw'' ''ocel.json'' Map.empty) =
     Inr (PyStr ''/Volumes/main/logistics/raw/ocel.json'')
   \<and> fst (OCEL2JSONUCImporter_download_file example_environment
          \<lparr>ji_url = Some ''https://example.org/ocel.json'', ji_catalog = Some ''main'',
           ji_schema = Some ''logistics'', ji_volume = Some ''raw'', ji_file_path = None\<rparr>
          ''ocel.json'' Map.empty) =
     Inr (PyStr ''/Volumes/main/logistics/raw/ocel.json'')"
proof -
  let ?self = "\<lparr>ji_url = Some ''https://example.org/ocel.json'', ji_catalog = Some ''main'',
           ji_schema = Some ''logistics'', ji_volume = Some ''raw'', ji_file_path = None\<rparr>"
  let ?a = "download_file example_environment ''https://example.org/ocel.json''
          ''/Volumes/main/logistics/raw'' ''ocel.json'' Map.empty"
  let ?b = "OCEL2JSONUCImporter_download_file example_environment ?self ''ocel.json'' Map.empty"
  have "\<exists>v. fst ?a = Inr v"
    by (simp add: download_file_def stream_to_file_def example_environment_def Let_def)
  then obtain v where a: "?a = (Inr v, snd ?a)"
    by (auto simp: prod_eq_iff)
  have "\<exists>w. fst ?b = Inr w"
    by (simp add: OCEL2JSONUCImporter_download_file_def stream_to_file_def
          example_environment_def Let_def)
  then obtain w where b: "?b = (Inr w, snd ?b)"
    by (auto simp: prod_eq_iff)
  from download_returns_path_only [THEN conjunct1, rule_format, OF a]
  have "v = PyStr ''/Volumes/main/logistics/raw/ocel.json''"
    by (simp add: os_path_join_def)
  moreover from download_returns_path_only [THEN conjunct2, rule_format, OF b]
  have "w = PyStr ''/Volumes/main/logistics/raw/ocel.json''"
    by (simp add: os_path_join_def)
  ultimately show ?thesis using a b by (simp add: prod_eq_iff)
qed

text \<open>\<^verbatim>\<open>OCEL2UCImporter.download_file\<close> has no return statement.\<close>

lemma OCEL2UCImporter_download_returns_None:
  "OCEL2UCImporter_download_file env self url file_path fs = (Inr v, fs') \<Longrightarrow> v = PyNone"
  by (auto simp: OCEL2UCImporter_download_file_def split: option.splits sum.splits prod.splits)

end
